theory Spec2Isabelle
  imports Complex_Main
begin

section \<open>JavaScript values\<close>

text \<open>
  The client of \<^verbatim>\<open>src/rpc/BitcoinRPC.ts\<close> moves untyped run-time values between its
  callers and the JSON-RPC transport. A number is an IEEE double: every finite double is a
  rational, and no method of the class does arithmetic, so a number is carried as a
  rational or as one of the three non-finite doubles.
\<close>

datatype number = Finite rat | PosInfinity | NegInfinity | NaN

datatype val =
    JUndefined
  | JNull
  | JBool bool
  | JNum number
  | JStr string
  | JArr "val list"
  | JObj "(string \<times> val) list"
  | JError string

text \<open>
  \<open>JError m\<close> is an error object with message \<open>m\<close>, such as \<^verbatim>\<open>new Error(m)\<close>.
\<close>

fun truthy :: "val \<Rightarrow> bool" where
  "truthy JUndefined = False"
| "truthy JNull = False"
| "truthy (JBool b) = b"
| "truthy (JNum n) = (n \<noteq> Finite 0 \<and> n \<noteq> NaN)"
| "truthy (JStr s) = (s \<noteq> [])"
| "truthy (JArr xs) = True"
| "truthy (JObj kvs) = True"
| "truthy (JError m) = True"

definition nullish :: "val \<Rightarrow> bool" where
  "nullish v = (v = JNull \<or> v = JUndefined)"

text \<open>\<^verbatim>\<open>a || b\<close> and \<^verbatim>\<open>a ?? b\<close>.\<close>

definition or_else :: "val \<Rightarrow> val \<Rightarrow> val" where
  "or_else a b = (if truthy a then a else b)"

definition coalesce :: "val \<Rightarrow> val \<Rightarrow> val" where
  "coalesce a b = (if nullish a then b else a)"

text \<open>
  \<^verbatim>\<open>v == ''\<close>, the loose comparison with the empty string: a string is compared as it is,
  a number or boolean with \<^verbatim>\<open>Number('') = 0\<close>, an array through its \<^verbatim>\<open>join(',')\<close>, in
  which \<^verbatim>\<open>null\<close> and \<^verbatim>\<open>undefined\<close> elements count as empty strings; \<^verbatim>\<open>null\<close>,
  \<^verbatim>\<open>undefined\<close> and other objects are never loosely equal to it.
\<close>

fun joins_empty :: "val \<Rightarrow> bool" where
  "joins_empty JUndefined = True"
| "joins_empty JNull = True"
| "joins_empty (JStr s) = (s = [])"
| "joins_empty (JArr []) = True"
| "joins_empty (JArr [x]) = joins_empty x"
| "joins_empty (JArr (x # y # zs)) = False"
| "joins_empty (JBool b) = False"
| "joins_empty (JNum n) = False"
| "joins_empty (JObj kvs) = False"
| "joins_empty (JError m) = False"

fun loosely_empty :: "val \<Rightarrow> bool" where
  "loosely_empty (JStr s) = (s = [])"
| "loosely_empty (JNum n) = (n = Finite 0)"
| "loosely_empty (JBool b) = (b = False)"
| "loosely_empty (JArr xs) = joins_empty (JArr xs)"
| "loosely_empty JUndefined = False"
| "loosely_empty JNull = False"
| "loosely_empty (JObj kvs) = False"
| "loosely_empty (JError m) = False"

text \<open>
  Reading a property of a value that is neither \<^verbatim>\<open>null\<close> nor \<^verbatim>\<open>undefined\<close>: an own
  property of an object, the message of an error, \<^verbatim>\<open>undefined\<close> otherwise.
\<close>

fun property :: "string \<Rightarrow> val \<Rightarrow> val" where
  "property k (JObj kvs) = (case map_of kvs k of Some v \<Rightarrow> v | None \<Rightarrow> JUndefined)"
| "property k (JError m) = (if k = ''message'' then JStr m else JUndefined)"
| "property k v = JUndefined"

text \<open>Typed arguments as run-time values; an omitted optional argument is \<^verbatim>\<open>undefined\<close>.\<close>

definition opt :: "('a \<Rightarrow> val) \<Rightarrow> 'a option \<Rightarrow> val" where
  "opt f x = (case x of None \<Rightarrow> JUndefined | Some a \<Rightarrow> f a)"

definition default_to :: "'a \<Rightarrow> 'a option \<Rightarrow> 'a" where
  "default_to d x = (case x of None \<Rightarrow> d | Some a \<Rightarrow> a)"

definition strings :: "string list \<Rightarrow> val" where
  "strings xs = JArr (map JStr xs)"

definition count :: "'a list \<Rightarrow> val" where
  "count xs = JNum (Finite (of_nat (length xs)))"

text \<open>\<^verbatim>\<open>a !== b\<close> on an optional number and a number.\<close>

definition strict_neq :: "number option \<Rightarrow> number \<Rightarrow> bool" where
  "strict_neq a b = (case a of None \<Rightarrow> True | Some x \<Rightarrow> if x = NaN then True else x \<noteq> b)"

section \<open>The client object and its environment\<close>

text \<open>
  A template literal is kept as its pieces: the literal text and the interpolated values.
\<close>

datatype piece = Lit string | Interp val

datatype log_line = Info "piece list" | Failure "piece list"

record RPCConfig =
  BITCOIND_HOST :: string
  BITCOIND_PORT :: number
  BITCOIND_USERNAME :: string
  BITCOIND_PASSWORD :: string

record RPCIniOptions =
  url :: string
  port :: number
  user :: string
  pass :: string

datatype RPCClient = RPCClient RPCIniOptions

datatype timeout = Timeout number

type_synonym wire_call = "string \<times> val list"

datatype reply = Resolve val | Reject val

text \<open>
  The transport (\<^verbatim>\<open>RPCClient\<close> of \<^verbatim>\<open>./external/rpc.js\<close>) is a parameter: for a handle, the
  calls made before and the call made now (the transport's method name and its arguments)
  it resolves with a value or rejects with one.
\<close>

type_synonym transport = "RPCClient \<Rightarrow> wire_call list \<Rightarrow> wire_call \<Rightarrow> reply"

text \<open>
  The fields of a \<^verbatim>\<open>BitcoinRPC\<close> object, followed by what it acts on: the lines its
  \<^verbatim>\<open>Logger\<close> superclass has written, the calls sent to the transport, the interval
  timers that are running, and the exit code once \<^verbatim>\<open>process.exit\<close> has been called.
  A method runs from its call to its settlement as one step.
\<close>

record state =
  rpc :: "RPCClient option"
  blockchainInfo :: val
  currentBlockInfo :: val
  purgeInterval :: "timeout option"
  cacheClearInterval :: number
  enableDebug :: bool
  console :: "log_line list"
  sent :: "wire_call list"
  intervals :: "timeout list"
  exited :: "int option"

text \<open>
  How a call ends: its promise resolves with a value, rejects with a thrown value, rejects
  with the TypeError the engine raises when a property of \<^verbatim>\<open>null\<close> or \<^verbatim>\<open>undefined\<close> is
  read, or the process exits.
\<close>

datatype outcome = Returned val | Thrown val | TypeErrorThrown | Exited int

text \<open>
  Enum members of \<^verbatim>\<open>./types/BitcoinVerbosity.js\<close> and \<^verbatim>\<open>./types/FeeEstimation.js\<close>, whose
  values the class only passes on and compares.
\<close>

record constants =
  Verbosity_NONE :: number
  Verbosity_RAW :: number
  FeeEstimation_CONSERVATIVE :: val

subsection \<open>Logging\<close>

definition log_msg :: "piece list \<Rightarrow> state \<Rightarrow> state" where
  "log_msg m s = s\<lparr>console := console s @ [Info m]\<rparr>"

definition super_error :: "piece list \<Rightarrow> state \<Rightarrow> state" where
  "super_error m s = s\<lparr>console := console s @ [Failure m]\<rparr>"

definition error :: "piece list \<Rightarrow> state \<Rightarrow> state" where
  "error m s = (if enableDebug s then super_error m s else s)"

definition debugMessage :: "piece list \<Rightarrow> state \<Rightarrow> state" where
  "debugMessage m s = (if enableDebug s then log_msg m s else s)"

subsection \<open>Construction, the purge timer, destruction\<close>

definition purge :: "state \<Rightarrow> state" where
  "purge s = s\<lparr>blockchainInfo := JNull, currentBlockInfo := JNull\<rparr>"

definition purgeCachedData :: "state \<Rightarrow> state" where
  "purgeCachedData s =
     s\<lparr>purgeInterval := Some (Timeout (cacheClearInterval s)),
       intervals := intervals s @ [Timeout (cacheClearInterval s)]\<rparr>"

definition new_BitcoinRPC :: "number option \<Rightarrow> bool option \<Rightarrow> state" where
  "new_BitcoinRPC interval debug =
     purgeCachedData
       \<lparr>rpc = None, blockchainInfo = JNull, currentBlockInfo = JNull, purgeInterval = None,
        cacheClearInterval = default_to (Finite 1000) interval,
        enableDebug = default_to False debug,
        console = [], sent = [], intervals = [], exited = None\<rparr>"

text \<open>The purge timer's period elapses: its callback runs if the timer is still running.\<close>

definition elapse :: "state \<Rightarrow> state" where
  "elapse s =
     (case purgeInterval s of
        None \<Rightarrow> s
      | Some h \<Rightarrow> if h \<in> set (intervals s) then purge s else s)"

definition destroy :: "state \<Rightarrow> state" where
  "destroy s =
     (let s1 = (case purgeInterval s of
                  None \<Rightarrow> s
                | Some h \<Rightarrow> s\<lparr>intervals := removeAll h (intervals s)\<rparr>)
      in s1\<lparr>rpc := None, blockchainInfo := JNull, currentBlockInfo := JNull\<rparr>)"

definition getRpcConfigFromBlockchainConfig :: "RPCConfig \<Rightarrow> RPCIniOptions" where
  "getRpcConfigFromBlockchainConfig rpcInfo =
     \<lparr>url = ''http://'' @ BITCOIND_HOST rpcInfo,
      port = BITCOIND_PORT rpcInfo,
      user = BITCOIND_USERNAME rpcInfo,
      pass = BITCOIND_PASSWORD rpcInfo\<rparr>"

section \<open>The RPC methods\<close>

text \<open>
  Every RPC method but \<^verbatim>\<open>getChainInfo\<close> and \<^verbatim>\<open>getBlockHeight\<close> has one shape: an optional
  debug message, the check of the transport handle, one call of the transport with a
  \<^verbatim>\<open>.catch\<close> handler, and a last expression on the awaited value. The handlers are
  \<^verbatim>\<open>(e) => { this.error(`text${e}`); return v; }\<close>, the same with \<^verbatim>\<open>throw e\<close>,
  \<^verbatim>\<open>(e) => { throw e; }\<close>, and none.
\<close>

datatype on_reject =
    Swallow string val
  | LogAndRethrow string
  | JustRethrow
  | NoHandler

text \<open>
  The last expression: \<^verbatim>\<open>x || null\<close>, \<^verbatim>\<open>x ?? null\<close>, \<^verbatim>\<open>x == '' ? null : x\<close>, \<^verbatim>\<open>x\<close>, or no
  \<^verbatim>\<open>return\<close> at all.
\<close>

datatype finish = OrNull | NullishToNull | EmptyToNull | AsIs | NoReturn

fun finished :: "finish \<Rightarrow> val \<Rightarrow> val" where
  "finished OrNull x = or_else x JNull"
| "finished NullishToNull x = coalesce x JNull"
| "finished EmptyToNull x = (if loosely_empty x then JNull else x)"
| "finished AsIs x = x"
| "finished NoReturn x = JUndefined"

definition not_initialized :: val where
  "not_initialized = JError ''RPC not initialized''"

definition rpc_method ::
  "transport \<Rightarrow> piece list option \<Rightarrow> wire_call \<Rightarrow> on_reject \<Rightarrow> finish \<Rightarrow> state \<Rightarrow> outcome \<times> state"
where
  "rpc_method t dbg w h f s =
     (let s1 = (case dbg of None \<Rightarrow> s | Some m \<Rightarrow> debugMessage m s) in
      case rpc s1 of
        None \<Rightarrow> (Thrown not_initialized, s1)
      | Some client \<Rightarrow>
          (let s2 = s1\<lparr>sent := sent s1 @ [w]\<rparr> in
           case t client (sent s1) w of
             Resolve x \<Rightarrow> (Returned (finished f x), s2)
           | Reject e \<Rightarrow>
               (case h of
                  Swallow text v \<Rightarrow> (Returned (finished f v), error [Lit text, Interp e] s2)
                | LogAndRethrow text \<Rightarrow> (Thrown e, error [Lit text, Interp e] s2)
                | JustRethrow \<Rightarrow> (Thrown e, s2)
                | NoHandler \<Rightarrow> (Thrown e, s2))))"

type_synonym operation = "transport \<Rightarrow> state \<Rightarrow> outcome \<times> state"

definition getBestBlockHash :: operation where
  "getBestBlockHash t =
     rpc_method t (Some [Lit ''getBestBlockHash''])
       (''getbestblockhash'', [])
       (Swallow ''Error getting best block hash: '' JUndefined) OrNull"

definition getBlockBatch :: "string list \<Rightarrow> operation" where
  "getBlockBatch blockHashes t =
     rpc_method t (Some [Lit ''getBlockBatch''])
       (''getblockBatch'', [strings blockHashes])
       (Swallow ''Error getting block batch: '' JNull) OrNull"

definition getBestBlockHeader :: "bool option \<Rightarrow> operation" where
  "getBestBlockHeader verbose t =
     rpc_method t (Some [Lit ''getBestBlockHeader''])
       (''getbestblockheader'', [JObj [(''verbose'', JBool (default_to True verbose))]])
       (Swallow ''Error getting best block header: '' JNull) AsIs"

definition getDeploymentInfo :: "string option \<Rightarrow> operation" where
  "getDeploymentInfo blockHash t =
     rpc_method t
       (Some [Lit ''getDeploymentInfo '', Interp (or_else (opt JStr blockHash) (JStr ''tip''))])
       (''getdeploymentinfo'',
        [if truthy (opt JStr blockHash) then JObj [(''blockhash'', opt JStr blockHash)]
         else JObj []])
       (Swallow ''Error getting deployment info: '' JNull) AsIs"

definition getMempoolEntryById :: "string \<Rightarrow> operation" where
  "getMempoolEntryById wtxid t =
     rpc_method t (Some [Lit ''getMempoolEntryById '', Interp (JStr wtxid)])
       (''getmempoolentrybyid'', [JObj [(''wtxid'', JStr wtxid)]])
       (Swallow ''Error getting mempool entry by id: '' JNull) AsIs"

definition generate :: "number \<Rightarrow> number option \<Rightarrow> string option \<Rightarrow> operation" where
  "generate nBlocks maxTries wallet t =
     rpc_method t (Some [Lit ''generate '', Interp (JNum nBlocks), Lit '' blocks''])
       (''generate'',
        [JObj [(''nblocks'', JNum nBlocks), (''maxtries'', opt JNum maxTries)],
         opt JStr wallet])
       (Swallow ''Error generating blocks: '' JNull) AsIs"

definition generateBlock :: "string \<Rightarrow> string list option \<Rightarrow> bool option \<Rightarrow> operation" where
  "generateBlock output transactions submit t =
     rpc_method t (Some [Lit ''generateBlock to '', Interp (JStr output)])
       (''generateblock'',
        [JObj [(''output'', JStr output),
               (''transactions'', strings (default_to [] transactions)),
               (''submit'', JBool (default_to True submit))]])
       (Swallow ''Error generating block: '' JNull) AsIs"

definition addPeerAddress :: "string \<Rightarrow> number \<Rightarrow> bool option \<Rightarrow> operation" where
  "addPeerAddress address portNumber tried t =
     rpc_method t
       (Some [Lit ''addPeerAddress '', Interp (JStr address), Lit '':'', Interp (JNum portNumber)])
       (''addpeeraddress'',
        [JObj [(''address'', JStr address), (''port'', JNum portNumber),
               (''tried'', JBool (default_to False tried))]])
       (Swallow ''Error adding peer address: '' JNull) AsIs"

definition getNodeAddresses :: "number option \<Rightarrow> operation" where
  "getNodeAddresses cnt t =
     rpc_method t
       (Some [Lit ''getNodeAddresses '', Interp (or_else (opt JNum cnt) (JStr ''default''))])
       (''getnodeaddresses'',
        [if truthy (opt JNum cnt) then JObj [(''count'', opt JNum cnt)] else JObj []])
       (Swallow ''Error getting node addresses: '' JNull) AsIs"

definition sendMsgToPeer :: "number \<Rightarrow> string \<Rightarrow> string \<Rightarrow> operation" where
  "sendMsgToPeer peerId msgType data t =
     rpc_method t (Some [Lit ''sendMsgToPeer to peer '', Interp (JNum peerId)])
       (''sendmsgtopeer'',
        [JObj [(''peer_id'', JNum peerId), (''msg_type'', JStr msgType), (''data'', JStr data)]])
       (LogAndRethrow ''Error sending message to peer: '') NoReturn"

definition submitPackage :: "string list \<Rightarrow> val option \<Rightarrow> val option \<Rightarrow> operation" where
  "submitPackage packageTxs maxFeeRate maxBurnAmount t =
     rpc_method t
       (Some [Lit ''submitPackage with '', Interp (count packageTxs), Lit '' transactions''])
       (''submitpackage'',
        [JObj [(''package'', strings packageTxs),
               (''maxfeerate'', opt id maxFeeRate),
               (''maxburnamount'', opt id maxBurnAmount)]])
       (Swallow ''Error submitting package: '' JNull) AsIs"

definition getIndexInfo :: "string option \<Rightarrow> operation" where
  "getIndexInfo indexName t =
     rpc_method t
       (Some [Lit ''getIndexInfo '', Interp (or_else (opt JStr indexName) (JStr ''all''))])
       (''getindexinfo'',
        [if truthy (opt JStr indexName) then JObj [(''index_name'', opt JStr indexName)]
         else JObj []])
       (Swallow ''Error getting index info: '' JNull) AsIs"

definition verifyChainLock :: "string \<Rightarrow> string \<Rightarrow> number \<Rightarrow> operation" where
  "verifyChainLock blockHash signature height t =
     rpc_method t (Some [Lit ''verifyChainLock for block '', Interp (JStr blockHash)])
       (''verifychainlock'',
        [JObj [(''blockhash'', JStr blockHash), (''signature'', JStr signature),
               (''height'', JNum height)]])
       (Swallow ''Error verifying chainlock: '' JNull) AsIs"

datatype descriptor_type = Wpkh | Pkh | Sh | Tr

fun descriptor_name :: "descriptor_type \<Rightarrow> string" where
  "descriptor_name Wpkh = ''wpkh''"
| "descriptor_name Pkh = ''pkh''"
| "descriptor_name Sh = ''sh''"
| "descriptor_name Tr = ''tr''"

definition createWalletDescriptor ::
  "descriptor_type \<Rightarrow> bool option \<Rightarrow> string option \<Rightarrow> string option \<Rightarrow> operation"
where
  "createWalletDescriptor ty internal hdkey wallet t =
     rpc_method t
       (Some [Lit ''createWalletDescriptor type: '', Interp (JStr (descriptor_name ty))])
       (''createwalletdescriptor'',
        [JObj [(''type'', JStr (descriptor_name ty)), (''internal'', opt JBool internal),
               (''hdkey'', opt JStr hdkey)],
         opt JStr wallet])
       (Swallow ''Error creating wallet descriptor: '' JNull) AsIs"

definition getHDKeys :: "bool option \<Rightarrow> bool option \<Rightarrow> string option \<Rightarrow> operation" where
  "getHDKeys activeOnly privateKeys wallet t =
     rpc_method t (Some [Lit ''getHDKeys''])
       (''gethdkeys'',
        [JObj [(''active_only'', JBool (default_to False activeOnly)),
               (''private'', JBool (default_to False privateKeys))],
         opt JStr wallet])
       (Swallow ''Error getting HD keys: '' JNull) AsIs"

definition importDescriptors :: "val list \<Rightarrow> string option \<Rightarrow> operation" where
  "importDescriptors requests wallet t =
     rpc_method t
       (Some [Lit ''importDescriptors with '', Interp (count requests), Lit '' descriptors''])
       (''importdescriptors'', [JObj [(''requests'', JArr requests)], opt JStr wallet])
       (Swallow ''Error importing descriptors: '' JNull) AsIs"

definition listDescriptors :: "bool option \<Rightarrow> string option \<Rightarrow> operation" where
  "listDescriptors includePrivate wallet t =
     rpc_method t (Some [Lit ''listDescriptors''])
       (''listdescriptors'',
        [JObj [(''private'', JBool (default_to False includePrivate))], opt JStr wallet])
       (Swallow ''Error listing descriptors: '' JNull) AsIs"

definition migrateWallet :: "string option \<Rightarrow> string option \<Rightarrow> operation" where
  "migrateWallet walletName passphrase t =
     rpc_method t
       (Some [Lit ''migrateWallet '', Interp (or_else (opt JStr walletName) (JStr ''default''))])
       (''migratewallet'',
        [JObj [(''wallet_name'', opt JStr walletName), (''passphrase'', opt JStr passphrase)]])
       (Swallow ''Error migrating wallet: '' JNull) AsIs"

definition newKeypool :: "string option \<Rightarrow> operation" where
  "newKeypool wallet t =
     rpc_method t (Some [Lit ''newKeypool''])
       (''newkeypool'', [opt JStr wallet])
       (LogAndRethrow ''Error creating new keypool: '') NoReturn"

definition psbtBumpFee :: "string \<Rightarrow> val option \<Rightarrow> string option \<Rightarrow> operation" where
  "psbtBumpFee txid options wallet t =
     rpc_method t (Some [Lit ''psbtBumpFee for '', Interp (JStr txid)])
       (''psbtbumpfee'',
        [JObj [(''txid'', JStr txid), (''options'', opt id options)], opt JStr wallet])
       (Swallow ''Error bumping fee with PSBT: '' JNull) AsIs"

text \<open>The \<^verbatim>\<open>options\<close> argument of \<^verbatim>\<open>send\<close> and \<^verbatim>\<open>sendAll\<close>, read with \<^verbatim>\<open>options?.field\<close>.\<close>

datatype estimate_mode = UNSET | ECONOMICAL | CONSERVATIVE

fun estimate_mode_name :: "estimate_mode \<Rightarrow> string" where
  "estimate_mode_name UNSET = ''UNSET''"
| "estimate_mode_name ECONOMICAL = ''ECONOMICAL''"
| "estimate_mode_name CONSERVATIVE = ''CONSERVATIVE''"

record send_options =
  confTarget :: "number option"
  estimateMode :: "estimate_mode option"
  feeRate :: "val option"
  advancedOptions :: "val option"

definition optional_chain :: "'a option \<Rightarrow> ('a \<Rightarrow> val) \<Rightarrow> val" where
  "optional_chain ob f = (case ob of None \<Rightarrow> JUndefined | Some x \<Rightarrow> f x)"

definition send_fields :: "send_options option \<Rightarrow> (string \<times> val) list" where
  "send_fields options =
     [(''conf_target'', optional_chain options (\<lambda>ob. opt JNum (confTarget ob))),
      (''estimate_mode'',
         optional_chain options (\<lambda>ob. opt (\<lambda>m. JStr (estimate_mode_name m)) (estimateMode ob))),
      (''fee_rate'', optional_chain options (\<lambda>ob. opt id (feeRate ob))),
      (''options'', optional_chain options (\<lambda>ob. opt id (advancedOptions ob)))]"

definition send :: "val \<Rightarrow> send_options option \<Rightarrow> string option \<Rightarrow> operation" where
  "send outputs options wallet t =
     rpc_method t (Some [Lit ''send transaction''])
       (''send'', [JObj ((''outputs'', outputs) # send_fields options), opt JStr wallet])
       (Swallow ''Error sending transaction: '' JNull) AsIs"

definition sendAll :: "val \<Rightarrow> send_options option \<Rightarrow> string option \<Rightarrow> operation" where
  "sendAll recipients options wallet t =
     rpc_method t (Some [Lit ''sendAll transaction''])
       (''sendall'', [JObj ((''recipients'', recipients) # send_fields options), opt JStr wallet])
       (Swallow ''Error sending all: '' JNull) AsIs"

definition simulateRawTransaction ::
  "string list option \<Rightarrow> bool option \<Rightarrow> string option \<Rightarrow> operation"
where
  "simulateRawTransaction rawTxs includeWatchOnly wallet t =
     rpc_method t (Some [Lit ''simulateRawTransaction''])
       (''simulaterawtransaction'',
        [JObj [(''rawtxs'', strings (default_to [] rawTxs)),
               (''options'',
                  JObj [(''include_watchonly'', JBool (default_to False includeWatchOnly))])],
         opt JStr wallet])
       (Swallow ''Error simulating transaction: '' JNull) AsIs"

definition upgradeWallet :: "number option \<Rightarrow> string option \<Rightarrow> operation" where
  "upgradeWallet version wallet t =
     rpc_method t
       (Some [Lit ''upgradeWallet to version '',
              Interp (or_else (opt JNum version) (JStr ''latest''))])
       (''upgradewallet'',
        [if truthy (opt JNum version) then JObj [(''version'', opt JNum version)] else JObj [],
         opt JStr wallet])
       (Swallow ''Error upgrading wallet: '' JNull) AsIs"

definition getBlockAsHexString :: "constants \<Rightarrow> string \<Rightarrow> operation" where
  "getBlockAsHexString K blockHash t =
     rpc_method t (Some [Lit ''getBlockAsHexString''])
       (''getblock'',
        [JObj [(''blockhash'', JStr blockHash), (''verbosity'', JNum (Verbosity_NONE K))]])
       (Swallow ''Error getting block data: '' JNull) EmptyToNull"

definition estimateSmartFee :: "constants \<Rightarrow> number \<Rightarrow> val option \<Rightarrow> operation" where
  "estimateSmartFee K target mode t =
     rpc_method t (Some [Lit ''estimateSmartFee''])
       (''estimatesmartfee'',
        [JObj [(''conf_target'', JNum target),
               (''estimate_mode'', default_to (FeeEstimation_CONSERVATIVE K) mode)]])
       NoHandler AsIs"

definition joinPSBTs :: "string list \<Rightarrow> operation" where
  "joinPSBTs psbts t =
     rpc_method t (Some [Lit ''joinPSBTs''])
       (''joinpsbts'', [JObj [(''txs'', strings psbts)]])
       (Swallow ''Error joining PSBTs: '' (JStr [])) OrNull"

definition getBlockInfoOnly :: "constants \<Rightarrow> string \<Rightarrow> operation" where
  "getBlockInfoOnly K blockHash t =
     rpc_method t (Some [Lit ''getBlockInfoOnly''])
       (''getblock'',
        [JObj [(''blockhash'', JStr blockHash), (''verbosity'', JNum (Verbosity_RAW K))]])
       (Swallow ''Error getting block data: '' JNull) OrNull"

definition getBlockInfoWithTransactionData :: "string \<Rightarrow> operation" where
  "getBlockInfoWithTransactionData blockHash t =
     rpc_method t (Some [Lit ''getBlockInfoWithTransactionData '', Interp (JStr blockHash)])
       (''getblock'',
        [JObj [(''blockhash'', JStr blockHash), (''verbosity'', JNum (Finite 2))]])
       (Swallow ''Error getting block data: '' JNull) OrNull"

definition getBlockHashes :: "number \<Rightarrow> number \<Rightarrow> operation" where
  "getBlockHashes height cnt t =
     rpc_method t
       (Some [Lit ''getBlockHashes '', Interp (JNum height), Lit '' '', Interp (JNum cnt)])
       (''getblockhashes'', [JObj [(''height'', JNum height)], JNum cnt])
       (Swallow ''Error getting block hashes: '' (JArr [])) OrNull"

definition getBlocksInfoWithTransactionData :: "string list \<Rightarrow> operation" where
  "getBlocksInfoWithTransactionData blockHashes t =
     rpc_method t None
       (''getblockBatch'', [strings blockHashes, JNum (Finite 2)])
       (Swallow ''Error getting block data: '' JNull) OrNull"

definition getBlockCount :: operation where
  "getBlockCount t =
     rpc_method t (Some [Lit ''getBlockCount''])
       (''getblockcount'', [])
       (Swallow ''Error getting block count: '' (JNum (Finite 0))) NullishToNull"

definition getBlockFilter :: "string \<Rightarrow> string option \<Rightarrow> operation" where
  "getBlockFilter blockHash filterType t =
     rpc_method t (Some [Lit ''getBlockFilter '', Interp (JStr blockHash)])
       (''getblockfilter'',
        [JObj [(''blockhash'', JStr blockHash), (''filtertype'', opt JStr filterType)]])
       (Swallow ''Error getting block filter: '' JNull) OrNull"

definition getBlockHash :: "number \<Rightarrow> operation" where
  "getBlockHash height t =
     rpc_method t (Some [Lit ''getBlockHash '', Interp (JNum height)])
       (''getblockhash'', [JObj [(''height'', JNum height)]])
       (Swallow ''Error getting block hash: '' (JStr [])) OrNull"

text \<open>
  \<^verbatim>\<open>getChainInfo\<close> has no \<^verbatim>\<open>.catch\<close>: a rejection leaves the method before the assignment
  to \<^verbatim>\<open>this.blockchainInfo\<close>.
\<close>

definition getChainInfo :: operation where
  "getChainInfo t s =
     (let s1 = debugMessage [Lit ''getChainInfo''] s in
      case rpc s1 of
        None \<Rightarrow> (Thrown not_initialized, s1)
      | Some client \<Rightarrow>
          (let w = (''getblockchaininfo'', []);
               s2 = s1\<lparr>sent := sent s1 @ [w]\<rparr> in
           case t client (sent s1) w of
             Reject e \<Rightarrow> (Thrown e, s2)
           | Resolve info \<Rightarrow>
               (let s3 = s2\<lparr>blockchainInfo := info\<rparr>;
                    s4 = (if truthy info
                          then s3\<lparr>currentBlockInfo :=
                                    JObj [(''blockHeight'', property ''blocks'' info),
                                          (''blockHash'', property ''bestblockhash'' info)]\<rparr>
                          else s3)
                in (Returned info, s4))))"

definition getWalletInfo :: "string \<Rightarrow> operation" where
  "getWalletInfo walletName t =
     rpc_method t (Some [Lit ''getWalletInfo '', Interp (JStr walletName)])
       (''getwalletinfo'', [JStr walletName])
       (Swallow ''Error getting wallet info: '' JNull) OrNull"

definition createWallet :: "val \<Rightarrow> operation" where
  "createWallet params t =
     rpc_method t (Some [Lit ''createWallet''])
       (''createwallet'', [params])
       (Swallow ''Error creating wallet: '' (JStr [])) OrNull"

definition loadWallet :: "string \<Rightarrow> operation" where
  "loadWallet filename t =
     rpc_method t (Some [Lit ''loadWallet '', Interp (JStr filename)])
       (''loadwallet'', [JObj [(''filename'', JStr filename)]])
       (Swallow ''Error loading wallet: '' (JStr [])) OrNull"

definition listWallets :: operation where
  "listWallets t =
     rpc_method t (Some [Lit ''listWallets''])
       (''listwallets'', [])
       (Swallow ''Error listing wallets: '' (JArr [])) OrNull"

definition getNewAddress :: "string \<Rightarrow> string option \<Rightarrow> operation" where
  "getNewAddress label wallet t =
     rpc_method t (Some [Lit ''getNewAddress '', Interp (JStr label)])
       (''getnewaddress'', [JObj [(''label'', JStr label)], opt JStr wallet])
       (Swallow ''Error getting new address: '' (JStr [])) OrNull"

definition generateToAddress :: "number \<Rightarrow> string \<Rightarrow> string option \<Rightarrow> operation" where
  "generateToAddress nBlock address wallet t =
     rpc_method t
       (Some [Lit ''generateToAddress '', Interp (JNum nBlock), Lit '' '', Interp (JStr address)])
       (''generatetoaddress'',
        [JObj [(''nblocks'', JNum nBlock), (''address'', JStr address)], opt JStr wallet])
       (Swallow ''Error generating to address: '' (JArr [])) OrNull"

definition importPrivateKey ::
  "string \<Rightarrow> string \<Rightarrow> bool option \<Rightarrow> string option \<Rightarrow> operation"
where
  "importPrivateKey privateKey label rescan wallet t =
     rpc_method t (Some [Lit ''importPrivateKey '', Interp (JStr label)])
       (''importprivkey'',
        [JObj [(''privkey'', JStr privateKey), (''label'', JStr label),
               (''rescan'', opt JBool rescan)],
         opt JStr wallet])
       (Swallow ''Error importing private key: '' JUndefined) NoReturn"

definition invalidateBlock :: "string \<Rightarrow> operation" where
  "invalidateBlock blockHash t =
     rpc_method t (Some [Lit ''invalidateBlock '', Interp (JStr blockHash)])
       (''invalidateblock'', [JObj [(''blockhash'', JStr blockHash)]])
       (LogAndRethrow ''Error invalidating block: '') NoReturn"

definition reconsiderBlock :: "string \<Rightarrow> operation" where
  "reconsiderBlock blockHash t =
     rpc_method t (Some [Lit ''reconsiderBlock '', Interp (JStr blockHash)])
       (''reconsiderblock'', [JObj [(''blockhash'', JStr blockHash)]])
       (LogAndRethrow ''Error reconsidering block: '') NoReturn"

definition getAddressByLabel :: "string \<Rightarrow> string option \<Rightarrow> operation" where
  "getAddressByLabel label wallet t =
     rpc_method t (Some [Lit ''getAddressByLabel '', Interp (JStr label)])
       (''getaddressesbylabel'', [JObj [(''label'', JStr label)], opt JStr wallet])
       (LogAndRethrow ''Error getting address by label: '') OrNull"

definition sendRawTransaction :: "val \<Rightarrow> operation" where
  "sendRawTransaction params t =
     rpc_method t (Some [Lit ''sendRawTransaction''])
       (''sendrawtransaction'', [params])
       JustRethrow OrNull"

definition decodeRawTransaction :: "string \<Rightarrow> bool option \<Rightarrow> operation" where
  "decodeRawTransaction hexString isWitness t =
     rpc_method t (Some [Lit ''decodeRawTransaction '', Interp (JStr hexString)])
       (''decoderawtransaction'',
        [JObj [(''hexstring'', JStr hexString),
               (''iswitness'', JBool (default_to False isWitness))]])
       (Swallow ''Error decoding raw transaction: '' JNull) OrNull"

definition dumpPrivateKey :: "string \<Rightarrow> string option \<Rightarrow> operation" where
  "dumpPrivateKey address wallet t =
     rpc_method t (Some [Lit ''dumpPrivateKey '', Interp (JStr address)])
       (''dumpprivkey'', [JObj [(''address'', JStr address)], opt JStr wallet])
       (Swallow ''Error dumping private key: '' (JStr [])) OrNull"

definition getRawTransactions :: "constants \<Rightarrow> string list \<Rightarrow> number option \<Rightarrow> operation" where
  "getRawTransactions K txs verbosity t =
     rpc_method t (Some [Lit ''getRawTransactions '', Interp (strings txs)])
       (''getrawtransactionBatch'',
        [strings txs, JBool (strict_neq verbosity (Verbosity_RAW K))])
       (Swallow ''Error getting raw transactions: '' JNull) OrNull"

text \<open>
  \<^verbatim>\<open>getBlockHeight\<close> answers from the cached pair and refreshes it through \<^verbatim>\<open>getChainInfo\<close>
  only when there is none.
\<close>

definition getBlockHeight :: operation where
  "getBlockHeight t s =
     (let s1 = debugMessage [Lit ''getBlockHeight''] s in
      case rpc s1 of
        None \<Rightarrow> (Thrown not_initialized, s1)
      | Some client \<Rightarrow>
          if truthy (currentBlockInfo s1) then (Returned (currentBlockInfo s1), s1)
          else (case getChainInfo t s1 of
                  (Returned info, s2) \<Rightarrow> (Returned (currentBlockInfo s2), s2)
                | (Thrown e, s2) \<Rightarrow> (Thrown e, s2)
                | (TypeErrorThrown, s2) \<Rightarrow> (TypeErrorThrown, s2)
                | (Exited n, s2) \<Rightarrow> (Exited n, s2)))"

definition getBlockHeader :: "string \<Rightarrow> bool option \<Rightarrow> operation" where
  "getBlockHeader blockHash verbose t =
     rpc_method t
       (Some [Lit ''getBlockHeader '', Interp (JStr blockHash), Lit '' '',
              Interp (opt JBool verbose)])
       (''getblockheader'',
        [JObj [(''blockhash'', JStr blockHash), (''verbose'', opt JBool verbose)]])
       (Swallow ''Error getting block header: '' (JStr [])) OrNull"

definition getBlockStatsByHeight :: "number \<Rightarrow> string list option \<Rightarrow> operation" where
  "getBlockStatsByHeight height stats t =
     rpc_method t
       (Some [Lit ''getBlockStatsByHeight '', Interp (JNum height), Lit '' '',
              Interp (opt strings stats)])
       (''getblockstats'',
        [JObj [(''hash_or_height'', JNum height), (''stats'', opt strings stats)]])
       (Swallow ''Error getting block stats: '' JNull) OrNull"

definition getBlockStatsByHash :: "string \<Rightarrow> string list option \<Rightarrow> operation" where
  "getBlockStatsByHash blockHash stats t =
     rpc_method t
       (Some [Lit ''getBlockStatsByHash '', Interp (JStr blockHash), Lit '' '',
              Interp (opt strings stats)])
       (''getblockstats'',
        [JObj [(''hash_or_height'', JStr blockHash), (''stats'', opt strings stats)]])
       (Swallow ''Error getting block stats: '' JNull) OrNull"

definition getChainTips :: operation where
  "getChainTips t =
     rpc_method t (Some [Lit ''getChainTips''])
       (''getchaintips'', [])
       (Swallow ''Error getting chain tips: '' JNull) OrNull"

definition getChainTxStats :: "val \<Rightarrow> operation" where
  "getChainTxStats param t =
     rpc_method t (Some [Lit ''getChainTxStats''])
       (''getchaintxstats'', [param])
       (Swallow ''Error getting chain tx stats: '' JNull) OrNull"

definition getDifficulty :: operation where
  "getDifficulty t =
     rpc_method t (Some [Lit ''getDifficulty''])
       (''getdifficulty'', [])
       (Swallow ''Error getting difficulty: '' (JNum (Finite 0))) NullishToNull"

definition getMempoolAncestors :: "constants \<Rightarrow> string \<Rightarrow> number option \<Rightarrow> operation" where
  "getMempoolAncestors K txid verbosity t =
     rpc_method t (Some [Lit ''getMempoolAncestors '', Interp (JStr txid)])
       (''getmempoolancestors'',
        [JObj [(''txid'', JStr txid),
               (''verbose'', JBool (strict_neq verbosity (Verbosity_RAW K)))]])
       (Swallow ''Error getting mempool ancestors: '' JNull) OrNull"

definition getMempoolDescendants :: "constants \<Rightarrow> string \<Rightarrow> number option \<Rightarrow> operation" where
  "getMempoolDescendants K txid verbosity t =
     rpc_method t (Some [Lit ''getMempoolDescendants '', Interp (JStr txid)])
       (''getmempooldescendants'',
        [JObj [(''txid'', JStr txid),
               (''verbose'', JBool (strict_neq verbosity (Verbosity_RAW K)))]])
       (Swallow ''Error getting mempool descendants: '' JNull) OrNull"

definition getMempoolEntry :: "string \<Rightarrow> operation" where
  "getMempoolEntry txid t =
     rpc_method t (Some [Lit ''getMempoolEntry '', Interp (JStr txid)])
       (''getmempoolentry'', [JObj [(''txid'', JStr txid)]])
       (Swallow ''Error getting mempool entry: '' JNull) OrNull"

definition getMempoolInfo :: operation where
  "getMempoolInfo t =
     rpc_method t (Some [Lit ''getMempoolInfo''])
       (''getmempoolinfo'', [])
       (Swallow ''Error getting mempool info: '' JNull) OrNull"

definition getRawMempool :: "constants \<Rightarrow> number option \<Rightarrow> operation" where
  "getRawMempool K verbosity t =
     rpc_method t (Some [Lit ''getRawMempool''])
       (''getrawmempool'',
        [JObj [(''verbose'', JBool (strict_neq verbosity (Verbosity_RAW K)))]])
       (Swallow ''Error getting raw mempool: '' JNull) OrNull"

definition getTxOut :: "string \<Rightarrow> number \<Rightarrow> bool option \<Rightarrow> operation" where
  "getTxOut txid voutNumber includeMempool t =
     rpc_method t
       (Some [Lit ''getTxOut '', Interp (JStr txid), Lit '' '', Interp (JNum voutNumber)])
       (''gettxout'',
        [JObj [(''n'', JNum voutNumber), (''txid'', JStr txid),
               (''include_mempool'', opt JBool includeMempool)]])
       (Swallow ''Error getting tx out: '' JNull) OrNull"

definition getTxOutProof :: "string list \<Rightarrow> string option \<Rightarrow> operation" where
  "getTxOutProof txids blockHash t =
     rpc_method t
       (Some [Lit ''getTxOutProof '', Interp (strings txids), Lit '' '',
              Interp (opt JStr blockHash)])
       (''gettxoutproof'',
        [JObj [(''txids'', strings txids), (''blockhash'', opt JStr blockHash)]])
       (Swallow ''Error getting tx out proof: '' (JStr [])) OrNull"

definition getTxOutSetInfo :: operation where
  "getTxOutSetInfo t =
     rpc_method t (Some [Lit ''getTxOutSetInfo''])
       (''gettxoutsetinfo'', [])
       (Swallow ''Error getting tx out set info: '' JNull) OrNull"

definition preciousBlock :: "string \<Rightarrow> operation" where
  "preciousBlock blockHash t =
     rpc_method t (Some [Lit ''preciousBlock '', Interp (JStr blockHash)])
       (''preciousblock'', [JObj [(''blockhash'', JStr blockHash)]])
       (Swallow ''Error precious block: '' JUndefined) NoReturn"

definition pruneBlockChain :: "number \<Rightarrow> operation" where
  "pruneBlockChain height t =
     rpc_method t (Some [Lit ''pruneBlockChain '', Interp (JNum height)])
       (''pruneblockchain'', [JObj [(''height'', JNum height)]])
       (Swallow ''Error pruning blockchain: '' (JNum (Finite 0))) NullishToNull"

definition saveMempool :: operation where
  "saveMempool t =
     rpc_method t (Some [Lit ''saveMempool''])
       (''savemempool'', [])
       (Swallow ''Error saving mempool: '' JUndefined) NoReturn"

definition verifyChain :: "number option \<Rightarrow> number option \<Rightarrow> operation" where
  "verifyChain checkLevel nblocks t =
     rpc_method t
       (Some [Lit ''verifyChain '', Interp (opt JNum checkLevel), Lit '' '',
              Interp (opt JNum nblocks)])
       (''verifychain'',
        [JObj [(''checklevel'', opt JNum checkLevel), (''nblocks'', opt JNum nblocks)]])
       (Swallow ''Error verifying chain: '' (JBool False)) NullishToNull"

definition verifyTxOutProof :: "string \<Rightarrow> operation" where
  "verifyTxOutProof proofHex t =
     rpc_method t (Some [Lit ''verifyTxOutProof '', Interp (JStr proofHex)])
       (''verifytxoutproof'', [JObj [(''proof'', JStr proofHex)]])
       (Swallow ''Error verifying tx out proof: '' (JArr [])) OrNull"

text \<open>
  \<^verbatim>\<open>getRawTransaction\<close> takes one object (\<^verbatim>\<open>BitcoinRawTransactionParams\<close>), reads its
  \<^verbatim>\<open>txId\<close>, \<^verbatim>\<open>verbose\<close> and \<^verbatim>\<open>blockHash\<close>, and adds \<^verbatim>\<open>blockhash\<close> to the wire object only
  under \<^verbatim>\<open>if (parameters.blockHash)\<close>.
\<close>

record BitcoinRawTransactionParams =
  txId :: string
  verbose :: "number option"
  blockHash :: "string option"

definition getRawTransaction_params :: "constants \<Rightarrow> BitcoinRawTransactionParams \<Rightarrow> val" where
  "getRawTransaction_params K parameters =
     (let params = [(''txid'', JStr (txId parameters)),
                    (''verbose'', JBool (strict_neq (verbose parameters) (Verbosity_RAW K)))]
      in if truthy (opt JStr (blockHash parameters))
         then JObj (params @ [(''blockhash'', opt JStr (blockHash parameters))])
         else JObj params)"

definition getRawTransaction :: "constants \<Rightarrow> BitcoinRawTransactionParams \<Rightarrow> operation" where
  "getRawTransaction K parameters t =
     rpc_method t (Some [Lit ''getRawTransaction '', Interp (JStr (txId parameters))])
       (''getrawtransaction'', [getRawTransaction_params K parameters])
       (Swallow ''Error getting raw transaction: '' JNull) OrNull"

subsection \<open>Initialisation\<close>

text \<open>
  \<^verbatim>\<open>testRPC\<close> wraps \<^verbatim>\<open>getChainInfo\<close> in \<^verbatim>\<open>try\<close>/\<^verbatim>\<open>catch\<close>. The handler reads
  \<^verbatim>\<open>error.message\<close> of whatever was thrown, which itself throws when that is \<^verbatim>\<open>null\<close> or
  \<^verbatim>\<open>undefined\<close>.
\<close>

definition testRPC :: operation where
  "testRPC t s =
     (case getChainInfo t s of
        (Returned chainInfo, s1) \<Rightarrow>
          if truthy chainInfo then (Returned JUndefined, s1)
          else (Exited 1,
                (error [Lit ''RPC errored. Please check your configuration.''] s1)
                  \<lparr>exited := Some 1\<rparr>)
      | (Thrown e, s1) \<Rightarrow>
          if nullish e then (TypeErrorThrown, s1)
          else (Returned JUndefined,
                error [Lit ''RPC errored. Please check your configuration. '',
                       Interp (property ''message'' e)] s1)
      | (TypeErrorThrown, s1) \<Rightarrow> (TypeErrorThrown, s1)
      | (Exited n, s1) \<Rightarrow> (Exited n, s1))"

definition already_initialized :: val where
  "already_initialized = JError ''RPC already initialized''"

definition init :: "RPCConfig \<Rightarrow> operation" where
  "init rpcInfo t s =
     (case rpc s of
        Some client \<Rightarrow> (Thrown already_initialized, s)
      | None \<Rightarrow>
          testRPC t (s\<lparr>rpc := Some (RPCClient (getRpcConfigFromBlockchainConfig rpcInfo))\<rparr>))"

section \<open>The exposed RPC methods as one family\<close>

text \<open>
  One constructor for each of the seventy RPC methods of the class, with the method's
  arguments, and the function that runs it.
\<close>

datatype (plugins only: size) request =
    GetBestBlockHash
  | GetBlockBatch "string list"
  | GetBestBlockHeader "bool option"
  | GetDeploymentInfo "string option"
  | GetMempoolEntryById string
  | Generate number "number option" "string option"
  | GenerateBlock string "string list option" "bool option"
  | AddPeerAddress string number "bool option"
  | GetNodeAddresses "number option"
  | SendMsgToPeer number string string
  | SubmitPackage "string list" "val option" "val option"
  | GetIndexInfo "string option"
  | VerifyChainLock string string number
  | CreateWalletDescriptor descriptor_type "bool option" "string option" "string option"
  | GetHDKeys "bool option" "bool option" "string option"
  | ImportDescriptors "val list" "string option"
  | ListDescriptors "bool option" "string option"
  | MigrateWallet "string option" "string option"
  | NewKeypool "string option"
  | PsbtBumpFee string "val option" "string option"
  | Send val "send_options option" "string option"
  | SendAll val "send_options option" "string option"
  | SimulateRawTransaction "string list option" "bool option" "string option"
  | UpgradeWallet "number option" "string option"
  | GetBlockAsHexString string
  | EstimateSmartFee number "val option"
  | JoinPSBTs "string list"
  | GetBlockInfoOnly string
  | GetBlockInfoWithTransactionData string
  | GetBlockHashes number number
  | GetBlocksInfoWithTransactionData "string list"
  | GetBlockCount
  | GetBlockFilter string "string option"
  | GetBlockHash number
  | GetChainInfo
  | GetWalletInfo string
  | CreateWallet val
  | LoadWallet string
  | ListWallets
  | GetNewAddress string "string option"
  | GenerateToAddress number string "string option"
  | ImportPrivateKey string string "bool option" "string option"
  | InvalidateBlock string
  | ReconsiderBlock string
  | GetAddressByLabel string "string option"
  | SendRawTransaction val
  | DecodeRawTransaction string "bool option"
  | DumpPrivateKey string "string option"
  | GetRawTransaction BitcoinRawTransactionParams
  | GetRawTransactions "string list" "number option"
  | GetBlockHeight
  | GetBlockHeader string "bool option"
  | GetBlockStatsByHeight number "string list option"
  | GetBlockStatsByHash string "string list option"
  | GetChainTips
  | GetChainTxStats val
  | GetDifficulty
  | GetMempoolAncestors string "number option"
  | GetMempoolDescendants string "number option"
  | GetMempoolEntry string
  | GetMempoolInfo
  | GetRawMempool "number option"
  | GetTxOut string number "bool option"
  | GetTxOutProof "string list" "string option"
  | GetTxOutSetInfo
  | PreciousBlock string
  | PruneBlockChain number
  | SaveMempool
  | VerifyChain "number option" "number option"
  | VerifyTxOutProof string

primrec perform :: "constants \<Rightarrow> request \<Rightarrow> operation" where
  "perform K GetBestBlockHash = getBestBlockHash"
| "perform K (GetBlockBatch a) = getBlockBatch a"
| "perform K (GetBestBlockHeader a) = getBestBlockHeader a"
| "perform K (GetDeploymentInfo a) = getDeploymentInfo a"
| "perform K (GetMempoolEntryById a) = getMempoolEntryById a"
| "perform K (Generate a b c) = generate a b c"
| "perform K (GenerateBlock a b c) = generateBlock a b c"
| "perform K (AddPeerAddress a b c) = addPeerAddress a b c"
| "perform K (GetNodeAddresses a) = getNodeAddresses a"
| "perform K (SendMsgToPeer a b c) = sendMsgToPeer a b c"
| "perform K (SubmitPackage a b c) = submitPackage a b c"
| "perform K (GetIndexInfo a) = getIndexInfo a"
| "perform K (VerifyChainLock a b c) = verifyChainLock a b c"
| "perform K (CreateWalletDescriptor a b c d) = createWalletDescriptor a b c d"
| "perform K (GetHDKeys a b c) = getHDKeys a b c"
| "perform K (ImportDescriptors a b) = importDescriptors a b"
| "perform K (ListDescriptors a b) = listDescriptors a b"
| "perform K (MigrateWallet a b) = migrateWallet a b"
| "perform K (NewKeypool a) = newKeypool a"
| "perform K (PsbtBumpFee a b c) = psbtBumpFee a b c"
| "perform K (Send a b c) = send a b c"
| "perform K (SendAll a b c) = sendAll a b c"
| "perform K (SimulateRawTransaction a b c) = simulateRawTransaction a b c"
| "perform K (UpgradeWallet a b) = upgradeWallet a b"
| "perform K (GetBlockAsHexString a) = getBlockAsHexString K a"
| "perform K (EstimateSmartFee a b) = estimateSmartFee K a b"
| "perform K (JoinPSBTs a) = joinPSBTs a"
| "perform K (GetBlockInfoOnly a) = getBlockInfoOnly K a"
| "perform K (GetBlockInfoWithTransactionData a) = getBlockInfoWithTransactionData a"
| "perform K (GetBlockHashes a b) = getBlockHashes a b"
| "perform K (GetBlocksInfoWithTransactionData a) = getBlocksInfoWithTransactionData a"
| "perform K GetBlockCount = getBlockCount"
| "perform K (GetBlockFilter a b) = getBlockFilter a b"
| "perform K (GetBlockHash a) = getBlockHash a"
| "perform K GetChainInfo = getChainInfo"
| "perform K (GetWalletInfo a) = getWalletInfo a"
| "perform K (CreateWallet a) = createWallet a"
| "perform K (LoadWallet a) = loadWallet a"
| "perform K ListWallets = listWallets"
| "perform K (GetNewAddress a b) = getNewAddress a b"
| "perform K (GenerateToAddress a b c) = generateToAddress a b c"
| "perform K (ImportPrivateKey a b c d) = importPrivateKey a b c d"
| "perform K (InvalidateBlock a) = invalidateBlock a"
| "perform K (ReconsiderBlock a) = reconsiderBlock a"
| "perform K (GetAddressByLabel a b) = getAddressByLabel a b"
| "perform K (SendRawTransaction a) = sendRawTransaction a"
| "perform K (DecodeRawTransaction a b) = decodeRawTransaction a b"
| "perform K (DumpPrivateKey a b) = dumpPrivateKey a b"
| "perform K (GetRawTransaction a) = getRawTransaction K a"
| "perform K (GetRawTransactions a b) = getRawTransactions K a b"
| "perform K GetBlockHeight = getBlockHeight"
| "perform K (GetBlockHeader a b) = getBlockHeader a b"
| "perform K (GetBlockStatsByHeight a b) = getBlockStatsByHeight a b"
| "perform K (GetBlockStatsByHash a b) = getBlockStatsByHash a b"
| "perform K GetChainTips = getChainTips"
| "perform K (GetChainTxStats a) = getChainTxStats a"
| "perform K GetDifficulty = getDifficulty"
| "perform K (GetMempoolAncestors a b) = getMempoolAncestors K a b"
| "perform K (GetMempoolDescendants a b) = getMempoolDescendants K a b"
| "perform K (GetMempoolEntry a) = getMempoolEntry a"
| "perform K GetMempoolInfo = getMempoolInfo"
| "perform K (GetRawMempool a) = getRawMempool K a"
| "perform K (GetTxOut a b c) = getTxOut a b c"
| "perform K (GetTxOutProof a b) = getTxOutProof a b"
| "perform K GetTxOutSetInfo = getTxOutSetInfo"
| "perform K (PreciousBlock a) = preciousBlock a"
| "perform K (PruneBlockChain a) = pruneBlockChain a"
| "perform K SaveMempool = saveMempool"
| "perform K (VerifyChain a b) = verifyChain a b"
| "perform K (VerifyTxOutProof a) = verifyTxOutProof a"

text \<open>
  What can happen to a client over its life: a method is called, \<^verbatim>\<open>init\<close> or \<^verbatim>\<open>destroy\<close>
  is called, or the purge timer's period elapses. Nothing happens any more once the process
  has exited.
\<close>

datatype event = Call request | Init RPCConfig | Destroy | Elapse

definition step :: "constants \<Rightarrow> transport \<Rightarrow> state \<Rightarrow> event \<Rightarrow> state" where
  "step K t s ev =
     (case exited s of
        Some n \<Rightarrow> s
      | None \<Rightarrow>
          (case ev of
             Call r \<Rightarrow> snd (perform K r t s)
           | Init rpcInfo \<Rightarrow> snd (init rpcInfo t s)
           | Destroy \<Rightarrow> destroy s
           | Elapse \<Rightarrow> elapse s))"

definition run :: "constants \<Rightarrow> transport \<Rightarrow> event list \<Rightarrow> state \<Rightarrow> state" where
  "run K t evs s = foldl (step K t) s evs"

section \<open>Vocabulary of the properties\<close>

text \<open>The state after the optional debug message, and after the call has been sent.\<close>

definition announce :: "piece list option \<Rightarrow> state \<Rightarrow> state" where
  "announce dbg s = (case dbg of None \<Rightarrow> s | Some m \<Rightarrow> debugMessage m s)"

definition called :: "piece list option \<Rightarrow> wire_call \<Rightarrow> state \<Rightarrow> state" where
  "called dbg w s = (announce dbg s)\<lparr>sent := sent s @ [w]\<rparr>"

text \<open>The error lines written between a state and a later one.\<close>

fun is_failure :: "log_line \<Rightarrow> bool" where
  "is_failure (Failure m) = True"
| "is_failure (Info m) = False"

definition errors_logged :: "state \<Rightarrow> state \<Rightarrow> log_line list" where
  "errors_logged s s' = filter is_failure (drop (length (console s)) (console s'))"








fun is_init :: "event \<Rightarrow> bool" where
  "is_init (Init rpcInfo) = True"
| "is_init ev = False"

fun is_destroy :: "event \<Rightarrow> bool" where
  "is_destroy Destroy = True"
| "is_destroy ev = False"

text \<open>The purge timer is running: the handle the object keeps is among the live timers.\<close>

definition timer_running :: "state \<Rightarrow> bool" where
  "timer_running s =
     (case purgeInterval s of None \<Rightarrow> False | Some h \<Rightarrow> h \<in> set (intervals s))"

text \<open>The pair \<^verbatim>\<open>getChainInfo\<close> derives from a snapshot.\<close>

definition basic_block_info :: "val \<Rightarrow> val" where
  "basic_block_info info =
     JObj [(''blockHeight'', property ''blocks'' info),
           (''blockHash'', property ''bestblockhash'' info)]"

subsection \<open>Concrete inputs\<close>

definition example_constants :: constants where
  "example_constants =
     \<lparr>Verbosity_NONE = Finite 0, Verbosity_RAW = Finite 1,
      FeeEstimation_CONSERVATIVE = JStr ''CONSERVATIVE''\<rparr>"

definition localhost :: RPCConfig where
  "localhost =
     \<lparr>BITCOIND_HOST = ''127.0.0.1'', BITCOIND_PORT = Finite 8332,
      BITCOIND_USERNAME = ''user'', BITCOIND_PASSWORD = ''secret''\<rparr>"

definition refused :: val where
  "refused = JError ''connect ECONNREFUSED''"

definition chain_tip :: val where
  "chain_tip = JObj [(''blocks'', JNum (Finite 840000)), (''bestblockhash'', JStr ''00ab'')]"

text \<open>
  Three nodes: one that refuses every call; one that answers \<^verbatim>\<open>getblockchaininfo\<close> with a
  snapshot, \<^verbatim>\<open>sendrawtransaction\<close> with a transaction id and every other call with the
  empty string; and one that answers the first call it gets with the snapshot and every
  later call with \<^verbatim>\<open>null\<close>.
\<close>

definition node_down :: transport where
  "node_down client before w = Reject refused"

definition node_up :: transport where
  "node_up client before w =
     (if fst w = ''getblockchaininfo'' then Resolve chain_tip
      else if fst w = ''sendrawtransaction'' then Resolve (JStr ''9f3c'')
      else Resolve (JStr []))"

definition node_forgetful :: transport where
  "node_forgetful client before w = (if before = [] then Resolve chain_tip else Resolve JNull)"

text \<open>
  Two clients whose \<^verbatim>\<open>init\<close> ran against the node that is down (the connectivity check
  fails and \<^verbatim>\<open>init\<close> resolves all the same): one constructed with the default arguments,
  one with \<^verbatim>\<open>enableDebug\<close> set.
\<close>

definition quiet_client :: state where
  "quiet_client = snd (init localhost node_down (new_BitcoinRPC None None))"


definition local_handle :: RPCClient where
  "local_handle =
     RPCClient \<lparr>url = ''http://127.0.0.1'', port = Finite 8332, user = ''user'', pass = ''secret''\<rparr>"

text \<open>A wire object has a field of a given name.\<close>

fun has_field :: "string \<Rightarrow> val \<Rightarrow> bool" where
  "has_field k (JObj kvs) = (map_of kvs k \<noteq> None)"
| "has_field k v = False"

text \<open>A client with default arguments whose \<^verbatim>\<open>init\<close> ran against the node that is up.\<close>

definition synced_client :: state where
  "synced_client = snd (init localhost node_up (new_BitcoinRPC None None))"

text \<open>A step leaves the purge timer alone.\<close>

definition same_timer :: "state \<Rightarrow> state \<Rightarrow> bool" where
  "same_timer s s' = (purgeInterval s' = purgeInterval s \<and> intervals s' = intervals s)"

text \<open>That client after \<^verbatim>\<open>destroy\<close>, and after \<^verbatim>\<open>destroy\<close> and a second \<^verbatim>\<open>init\<close>.\<close>

definition destroyed_client :: state where
  "destroyed_client = destroy synced_client"

definition reinitialised_client :: state where
  "reinitialised_client = snd (init localhost node_up destroyed_client)"

text \<open>
  The cached pair is \<^verbatim>\<open>null\<close> or an object, and it is \<^verbatim>\<open>null\<close> on a client without a
  transport handle.
\<close>

definition cache_consistent :: "state \<Rightarrow> bool" where
  "cache_consistent s =
     ((currentBlockInfo s = JNull \<or> truthy (currentBlockInfo s)) \<and>
      (currentBlockInfo s = JNull \<or> rpc s \<noteq> None))"

section \<open>Lemmas\<close>

lemma debugMessage_fields [simp]:
  "rpc (debugMessage m s) = rpc s"
  "sent (debugMessage m s) = sent s"
  "enableDebug (debugMessage m s) = enableDebug s"
  "blockchainInfo (debugMessage m s) = blockchainInfo s"
  "currentBlockInfo (debugMessage m s) = currentBlockInfo s"
  "purgeInterval (debugMessage m s) = purgeInterval s"
  "intervals (debugMessage m s) = intervals s"
  "exited (debugMessage m s) = exited s"
  "cacheClearInterval (debugMessage m s) = cacheClearInterval s"
  by (simp_all add: debugMessage_def log_msg_def)

lemma error_fields [simp]:
  "rpc (error m s) = rpc s"
  "sent (error m s) = sent s"
  "enableDebug (error m s) = enableDebug s"
  "blockchainInfo (error m s) = blockchainInfo s"
  "currentBlockInfo (error m s) = currentBlockInfo s"
  "purgeInterval (error m s) = purgeInterval s"
  "intervals (error m s) = intervals s"
  "exited (error m s) = exited s"
  "cacheClearInterval (error m s) = cacheClearInterval s"
  by (simp_all add: error_def super_error_def)

lemma debugMessage_console:
  "console (debugMessage m s) = console s @ (if enableDebug s then [Info m] else [])"
  by (simp add: debugMessage_def log_msg_def)

lemma error_console:
  "console (error m s) = console s @ (if enableDebug s then [Failure m] else [])"
  by (simp add: error_def super_error_def)

lemma rpc_method_uninitialized:
  "rpc s = None \<Longrightarrow> rpc_method t dbg w h f s = (Thrown not_initialized, announce dbg s)"
  by (cases dbg) (simp_all add: rpc_method_def announce_def)

lemmas method_defs =
  getBestBlockHash_def getBlockBatch_def getBestBlockHeader_def getDeploymentInfo_def
  getMempoolEntryById_def generate_def generateBlock_def addPeerAddress_def
  getNodeAddresses_def sendMsgToPeer_def submitPackage_def getIndexInfo_def
  verifyChainLock_def createWalletDescriptor_def getHDKeys_def importDescriptors_def
  listDescriptors_def migrateWallet_def newKeypool_def psbtBumpFee_def send_def sendAll_def
  simulateRawTransaction_def upgradeWallet_def getBlockAsHexString_def estimateSmartFee_def
  joinPSBTs_def getBlockInfoOnly_def getBlockInfoWithTransactionData_def getBlockHashes_def
  getBlocksInfoWithTransactionData_def getBlockCount_def getBlockFilter_def getBlockHash_def
  getWalletInfo_def createWallet_def loadWallet_def listWallets_def getNewAddress_def
  generateToAddress_def importPrivateKey_def invalidateBlock_def reconsiderBlock_def
  getAddressByLabel_def sendRawTransaction_def decodeRawTransaction_def dumpPrivateKey_def
  getRawTransaction_def getRawTransactions_def getBlockHeader_def getBlockStatsByHeight_def
  getBlockStatsByHash_def getChainTips_def getChainTxStats_def getDifficulty_def
  getMempoolAncestors_def getMempoolDescendants_def getMempoolEntry_def getMempoolInfo_def
  getRawMempool_def getTxOut_def getTxOutProof_def getTxOutSetInfo_def preciousBlock_def
  pruneBlockChain_def saveMempool_def verifyChain_def verifyTxOutProof_def

lemma perform_uninitialized:
  assumes "rpc s = None"
  shows "fst (perform K r t s) = Thrown not_initialized"
    and "sent (snd (perform K r t s)) = sent s"
    and "rpc (snd (perform K r t s)) = None"
  using assms
  by (cases r; simp add: method_defs rpc_method_uninitialized announce_def getChainInfo_def getBlockHeight_def)+

lemma announce_fields [simp]:
  "rpc (announce dbg s) = rpc s"
  "sent (announce dbg s) = sent s"
  "enableDebug (announce dbg s) = enableDebug s"
  "blockchainInfo (announce dbg s) = blockchainInfo s"
  "currentBlockInfo (announce dbg s) = currentBlockInfo s"
  by (cases dbg; simp add: announce_def)+

lemma rpc_method_initialized:
  assumes "rpc s = Some c"
  shows "rpc_method t dbg w h f s =
     (case t c (sent s) w of
        Resolve x \<Rightarrow> (Returned (finished f x), called dbg w s)
      | Reject e \<Rightarrow>
          (case h of
             Swallow text v \<Rightarrow> (Returned (finished f v), error [Lit text, Interp e] (called dbg w s))
           | LogAndRethrow text \<Rightarrow> (Thrown e, error [Lit text, Interp e] (called dbg w s))
           | JustRethrow \<Rightarrow> (Thrown e, called dbg w s)
           | NoHandler \<Rightarrow> (Thrown e, called dbg w s)))"
  using assms
  by (cases dbg)
     (simp_all add: rpc_method_def announce_def called_def Let_def
        split: reply.split on_reject.split)

lemma rpc_method_sent:
  "rpc s = Some c \<Longrightarrow> sent (snd (rpc_method t dbg w h f s)) = sent s @ [w]"
  by (simp add: rpc_method_initialized called_def split: reply.split on_reject.split)

lemma errors_logged_called [simp]:
  "errors_logged s (called dbg w s) = []"
  by (cases dbg) (simp_all add: errors_logged_def called_def announce_def debugMessage_console)

lemma errors_logged_error_called [simp]:
  "errors_logged s (error m (called dbg w s)) = (if enableDebug s then [Failure m] else [])"
  by (cases dbg)
     (simp_all add: errors_logged_def called_def announce_def debugMessage_console error_console)




lemma getChainInfo_initialized:
  assumes "rpc s = Some c"
  shows "getChainInfo t s =
     (case t c (sent s) (''getblockchaininfo'', []) of
        Reject e \<Rightarrow> (Thrown e, called (Some [Lit ''getChainInfo'']) (''getblockchaininfo'', []) s)
      | Resolve info \<Rightarrow>
          (Returned info,
           if truthy info
           then (called (Some [Lit ''getChainInfo'']) (''getblockchaininfo'', []) s)
                  \<lparr>blockchainInfo := info,
                   currentBlockInfo := JObj [(''blockHeight'', property ''blocks'' info),
                                             (''blockHash'', property ''bestblockhash'' info)]\<rparr>
           else (called (Some [Lit ''getChainInfo'']) (''getblockchaininfo'', []) s)
                  \<lparr>blockchainInfo := info\<rparr>))"
  using assms
  by (simp add: getChainInfo_def called_def announce_def Let_def split: reply.split)


lemma getBlockHeight_absent:
  assumes "rpc s = Some c" and "\<not> truthy (currentBlockInfo s)"
  shows "getBlockHeight t s =
     (case t c (sent s) (''getblockchaininfo'', []) of
        Reject e \<Rightarrow>
          (Thrown e,
           called (Some [Lit ''getChainInfo'']) (''getblockchaininfo'', [])
             (debugMessage [Lit ''getBlockHeight''] s))
      | Resolve info \<Rightarrow>
          (Returned (if truthy info
                     then JObj [(''blockHeight'', property ''blocks'' info),
                                (''blockHash'', property ''bestblockhash'' info)]
                     else currentBlockInfo s),
           snd (getChainInfo t (debugMessage [Lit ''getBlockHeight''] s))))"
proof -
  let ?s1 = "debugMessage [Lit ''getBlockHeight''] s"
  have init1: "rpc ?s1 = Some c" using assms(1) by simp
  show ?thesis
  proof (cases "t c (sent s) (''getblockchaininfo'', [])")
    case (Resolve info)
    then show ?thesis
      using assms by (simp add: getBlockHeight_def getChainInfo_initialized [OF init1] called_def)
  next
    case (Reject e)
    then show ?thesis
      using assms by (simp add: getBlockHeight_def getChainInfo_initialized [OF init1])
  qed
qed

lemma getBlockHeight_present:
  assumes "rpc s = Some c" and "truthy (currentBlockInfo s)"
  shows "getBlockHeight t s =
     (Returned (currentBlockInfo s), debugMessage [Lit ''getBlockHeight''] s)"
  using assms by (simp add: getBlockHeight_def)










lemma rpc_destroy [simp]: "rpc (destroy s) = None"
  by (simp add: destroy_def Let_def split: option.split)

lemma rpc_new [simp]: "rpc (new_BitcoinRPC interval debug) = None"
  by (simp add: new_BitcoinRPC_def purgeCachedData_def)

lemma rpc_elapse [simp]: "rpc (elapse s) = rpc s"
  by (simp add: elapse_def purge_def split: option.split)

lemma step_uninitialized:
  "rpc s = None \<Longrightarrow> \<not> is_init ev \<Longrightarrow> rpc (step K t s ev) = None"
  by (cases ev) (simp_all add: step_def perform_uninitialized split: option.split)

lemma run_uninitialized:
  "rpc s = None \<Longrightarrow> list_all (\<lambda>ev. \<not> is_init ev) evs \<Longrightarrow> rpc (run K t evs s) = None"
  unfolding run_def
  by (induction evs arbitrary: s) (simp_all add: step_uninitialized)

subsection \<open>The concrete clients and calls, evaluated\<close>

lemmas eval_defs =
  new_BitcoinRPC_def purgeCachedData_def default_to_def init_def testRPC_def getChainInfo_def
  getRpcConfigFromBlockchainConfig_def localhost_def debugMessage_def log_msg_def error_def
  super_error_def nullish_def refused_def node_down_def node_up_def chain_tip_def

lemma quiet_client_eval:
  "quiet_client =
     \<lparr>rpc = Some local_handle, blockchainInfo = JNull, currentBlockInfo = JNull,
      purgeInterval = Some (Timeout (Finite 1000)), cacheClearInterval = Finite 1000,
      enableDebug = False, console = [], sent = [(''getblockchaininfo'', [])],
      intervals = [Timeout (Finite 1000)], exited = None\<rparr>"
  by (simp add: quiet_client_def local_handle_def eval_defs)










lemma called_fields [simp]:
  "sent (called dbg w s) = sent s @ [w]"
  "rpc (called dbg w s) = rpc s"
  "enableDebug (called dbg w s) = enableDebug s"
  "blockchainInfo (called dbg w s) = blockchainInfo s"
  "currentBlockInfo (called dbg w s) = currentBlockInfo s"
  by (simp_all add: called_def)

lemma rpc_getChainInfo [simp]: "rpc (snd (getChainInfo t s)) = rpc s"
  by (simp add: getChainInfo_def Let_def split: option.split reply.split)

lemma rpc_testRPC [simp]: "rpc (snd (testRPC t s)) = rpc s"
proof (cases "getChainInfo t s")
  case (Pair out s1)
  with rpc_getChainInfo [of t s] have "rpc s1 = rpc s" by simp
  with Pair show ?thesis by (cases out) (simp_all add: testRPC_def)
qed

lemma synced_client_eval:
  "synced_client =
     \<lparr>rpc = Some local_handle, blockchainInfo = chain_tip,
      currentBlockInfo = JObj [(''blockHeight'', JNum (Finite 840000)),
                               (''blockHash'', JStr ''00ab'')],
      purgeInterval = Some (Timeout (Finite 1000)), cacheClearInterval = Finite 1000,
      enableDebug = False, console = [], sent = [(''getblockchaininfo'', [])],
      intervals = [Timeout (Finite 1000)], exited = None\<rparr>"
  by (simp add: synced_client_def local_handle_def eval_defs)


lemma rpc_method_same_timer: "same_timer s (snd (rpc_method t dbg w h f s))"
  by (cases dbg)
     (simp_all add: rpc_method_def same_timer_def Let_def
        split: option.split reply.split on_reject.split)

lemma getChainInfo_same_timer: "same_timer s (snd (getChainInfo t s))"
  by (simp add: getChainInfo_def same_timer_def Let_def split: option.split reply.split)

lemma getBlockHeight_same_timer: "same_timer s (snd (getBlockHeight t s))"
proof (cases "rpc s")
  case None
  then show ?thesis by (simp add: getBlockHeight_def same_timer_def)
next
  case (Some c)
  show ?thesis
  proof (cases "truthy (currentBlockInfo s)")
    case True
    with Some show ?thesis by (simp add: getBlockHeight_present same_timer_def)
  next
    case False
    obtain out s2 where g: "getChainInfo t (debugMessage [Lit ''getBlockHeight''] s) = (out, s2)"
      by (cases "getChainInfo t (debugMessage [Lit ''getBlockHeight''] s)")
    with getChainInfo_same_timer [of "debugMessage [Lit ''getBlockHeight''] s" t]
    have "same_timer (debugMessage [Lit ''getBlockHeight''] s) s2" by simp
    with Some False g show ?thesis
      by (cases out) (simp_all add: getBlockHeight_def same_timer_def)
  qed
qed

lemma perform_same_timer: "same_timer s (snd (perform K r t s))"
  apply (cases r)
  apply (simp_all only: perform.simps method_defs)
  apply (rule rpc_method_same_timer getChainInfo_same_timer getBlockHeight_same_timer)+
  done

lemma testRPC_same_timer: "same_timer s (snd (testRPC t s))"
proof (cases "getChainInfo t s")
  case (Pair out s1)
  with getChainInfo_same_timer [of s t] have "same_timer s s1" by simp
  with Pair show ?thesis by (cases out) (simp_all add: testRPC_def same_timer_def)
qed

lemma init_same_timer: "same_timer s (snd (init rpcInfo t s))"
proof (cases "rpc s")
  case None
  from testRPC_same_timer
    [of "s\<lparr>rpc := Some (RPCClient (getRpcConfigFromBlockchainConfig rpcInfo))\<rparr>" t]
  show ?thesis using None by (simp add: init_def same_timer_def)
next
  case (Some c)
  then show ?thesis by (simp add: init_def same_timer_def)
qed

lemma elapse_same_timer: "same_timer s (elapse s)"
  by (simp add: elapse_def purge_def same_timer_def split: option.split)

lemma step_same_timer: "\<not> is_destroy ev \<Longrightarrow> same_timer s (step K t s ev)"
  using perform_same_timer [of s K _ t] init_same_timer [of s _ t] elapse_same_timer [of s]
  by (cases ev) (simp_all add: step_def same_timer_def split: option.split)

lemma run_same_timer:
  "list_all (\<lambda>ev. \<not> is_destroy ev) evs \<Longrightarrow> same_timer s (run K t evs s)"
proof (induction evs arbitrary: s)
  case Nil
  show ?case by (simp add: run_def same_timer_def)
next
  case (Cons ev evs)
  then have "same_timer s (step K t s ev)" and "same_timer (step K t s ev) (run K t evs (step K t s ev))"
    by (simp_all add: step_same_timer)
  then show ?case by (simp add: run_def same_timer_def)
qed

lemma timer_running_new: "timer_running (new_BitcoinRPC interval debug)"
  by (simp add: timer_running_def new_BitcoinRPC_def purgeCachedData_def)

lemma timer_running_run:
  assumes "list_all (\<lambda>ev. \<not> is_destroy ev) evs"
  shows "timer_running (run K t evs (new_BitcoinRPC interval debug))"
  using run_same_timer [OF assms, of "new_BitcoinRPC interval debug" K t]
    timer_running_new [of interval debug]
  by (simp add: same_timer_def timer_running_def split: option.splits)

lemma elapse_purges:
  "timer_running s \<Longrightarrow> blockchainInfo (elapse s) = JNull \<and> currentBlockInfo (elapse s) = JNull"
  by (simp add: timer_running_def elapse_def purge_def split: option.splits)

lemma getBlockHeight_synced_client:
  "getBlockHeight node_up synced_client = (Returned (currentBlockInfo synced_client), synced_client)"
  by (simp add: getBlockHeight_def synced_client_eval debugMessage_def)

lemma run_synced:
  "run example_constants node_up [Init localhost, Call GetBlockHeight] (new_BitcoinRPC None None) =
     synced_client"
proof -
  have "exited (new_BitcoinRPC None None) = None"
    by (simp add: new_BitcoinRPC_def purgeCachedData_def)
  moreover have "exited synced_client = None" by (simp add: synced_client_eval)
  ultimately show ?thesis
    by (simp add: run_def step_def getBlockHeight_synced_client synced_client_def [symmetric])
qed

lemma getChainInfo_stale:
  "getChainInfo node_forgetful synced_client =
     (Returned JNull,
      synced_client\<lparr>blockchainInfo := JNull,
                    sent := sent synced_client @ [(''getblockchaininfo'', [])]\<rparr>)"
  by (simp add: synced_client_eval getChainInfo_def debugMessage_def node_forgetful_def)

lemma destroyed_client_eval:
  "destroyed_client =
     \<lparr>rpc = None, blockchainInfo = JNull, currentBlockInfo = JNull,
      purgeInterval = Some (Timeout (Finite 1000)), cacheClearInterval = Finite 1000,
      enableDebug = False, console = [], sent = [(''getblockchaininfo'', [])],
      intervals = [], exited = None\<rparr>"
  by (simp add: destroyed_client_def destroy_def synced_client_eval)

lemma reinitialised_client_eval:
  "reinitialised_client =
     \<lparr>rpc = Some local_handle, blockchainInfo = chain_tip,
      currentBlockInfo = JObj [(''blockHeight'', JNum (Finite 840000)),
                               (''blockHash'', JStr ''00ab'')],
      purgeInterval = Some (Timeout (Finite 1000)), cacheClearInterval = Finite 1000,
      enableDebug = False, console = [],
      sent = [(''getblockchaininfo'', []), (''getblockchaininfo'', [])],
      intervals = [], exited = None\<rparr>"
  by (simp add: reinitialised_client_def destroyed_client_eval local_handle_def eval_defs Let_def)

lemma run_reinitialised:
  "run example_constants node_up [Init localhost, Destroy, Init localhost, Elapse]
       (new_BitcoinRPC None None) = reinitialised_client"
proof -
  let ?K = example_constants
  have e0: "exited (new_BitcoinRPC None None) = None"
    by (simp add: new_BitcoinRPC_def purgeCachedData_def)
  have e1: "exited synced_client = None" by (simp add: synced_client_eval)
  have e2: "exited destroyed_client = None" by (simp add: destroyed_client_eval)
  have 1: "step ?K node_up (new_BitcoinRPC None None) (Init localhost) = synced_client"
    by (simp add: step_def e0 synced_client_def)
  have 2: "step ?K node_up synced_client Destroy = destroyed_client"
    by (simp add: step_def e1 destroyed_client_def)
  have 3: "step ?K node_up destroyed_client (Init localhost) = reinitialised_client"
    by (simp add: step_def e2 reinitialised_client_def)
  have 4: "step ?K node_up reinitialised_client Elapse = reinitialised_client"
    by (simp add: step_def elapse_def reinitialised_client_eval)
  show ?thesis by (simp add: run_def 1 2 3 4)
qed

subsection \<open>The cached pair over the life of a client\<close>

lemma rpc_method_keeps_cache:
  "rpc (snd (rpc_method t dbg w h f s)) = rpc s"
  "currentBlockInfo (snd (rpc_method t dbg w h f s)) = currentBlockInfo s"
  "blockchainInfo (snd (rpc_method t dbg w h f s)) = blockchainInfo s"
  by (cases dbg;
      simp add: rpc_method_def Let_def split: option.split reply.split on_reject.split)+

lemma rpc_method_cache_consistent:
  "cache_consistent s \<Longrightarrow> cache_consistent (snd (rpc_method t dbg w h f s))"
  by (simp add: cache_consistent_def rpc_method_keeps_cache)

lemma getChainInfo_cache_consistent:
  "cache_consistent s \<Longrightarrow> cache_consistent (snd (getChainInfo t s))"
  by (auto simp add: getChainInfo_def cache_consistent_def Let_def
        split: option.splits reply.splits)

lemma getBlockHeight_cache_consistent:
  assumes "cache_consistent s"
  shows "cache_consistent (snd (getBlockHeight t s))"
proof (cases "rpc s")
  case None
  with assms show ?thesis by (simp add: getBlockHeight_def cache_consistent_def)
next
  case (Some c)
  show ?thesis
  proof (cases "truthy (currentBlockInfo s)")
    case True
    with Some assms show ?thesis by (simp add: getBlockHeight_present cache_consistent_def)
  next
    case False
    let ?s1 = "debugMessage [Lit ''getBlockHeight''] s"
    obtain out s2 where g: "getChainInfo t ?s1 = (out, s2)"
      by (cases "getChainInfo t ?s1")
    have "cache_consistent ?s1" using assms by (simp add: cache_consistent_def)
    from getChainInfo_cache_consistent [OF this, of t] g have "cache_consistent s2" by simp
    with Some False g show ?thesis
      by (cases out) (simp_all add: getBlockHeight_def)
  qed
qed

lemma perform_cache_consistent:
  "cache_consistent s \<Longrightarrow> cache_consistent (snd (perform K r t s))"
  apply (cases r)
  apply (simp_all only: perform.simps method_defs)
  apply (erule rpc_method_cache_consistent getChainInfo_cache_consistent
           getBlockHeight_cache_consistent)+
  done

lemma testRPC_cache_consistent:
  assumes "cache_consistent s"
  shows "cache_consistent (snd (testRPC t s))"
proof (cases "getChainInfo t s")
  case (Pair out s1)
  with getChainInfo_cache_consistent [OF assms, of t] have "cache_consistent s1" by simp
  with Pair show ?thesis by (cases out) (simp_all add: testRPC_def cache_consistent_def)
qed

lemma init_cache_consistent:
  assumes "cache_consistent s"
  shows "cache_consistent (snd (init rpcInfo t s))"
proof (cases "rpc s")
  case None
  with assms have
    "cache_consistent (s\<lparr>rpc := Some (RPCClient (getRpcConfigFromBlockchainConfig rpcInfo))\<rparr>)"
    by (simp add: cache_consistent_def)
  from testRPC_cache_consistent [OF this, of t] None show ?thesis by (simp add: init_def)
next
  case (Some c)
  with assms show ?thesis by (simp add: init_def)
qed

lemma step_cache_consistent:
  assumes "cache_consistent s"
  shows "cache_consistent (step K t s ev)"
proof (cases "exited s")
  case (Some n)
  with assms show ?thesis by (simp add: step_def)
next
  case None
  note c = assms
  have "cache_consistent (destroy s)"
    by (simp add: destroy_def cache_consistent_def Let_def split: option.split)
  moreover have "cache_consistent (elapse s)"
    using c by (auto simp add: elapse_def purge_def cache_consistent_def split: option.splits)
  ultimately show ?thesis
    using None c
    by (cases ev) (simp_all add: step_def perform_cache_consistent init_cache_consistent)
qed

lemma run_cache_consistent:
  "cache_consistent s \<Longrightarrow> cache_consistent (run K t evs s)"
  unfolding run_def
  by (induction evs arbitrary: s) (simp_all add: step_cache_consistent)

lemma new_cache_consistent: "cache_consistent (new_BitcoinRPC interval debug)"
  by (simp add: cache_consistent_def new_BitcoinRPC_def purgeCachedData_def)

lemma getBlockHeight_consistent:
  assumes "rpc s = Some c"
    and "currentBlockInfo s = JNull \<or> truthy (currentBlockInfo s)"
  shows "if truthy (currentBlockInfo s)
         then fst (getBlockHeight t s) = Returned (currentBlockInfo s) \<and>
              sent (snd (getBlockHeight t s)) = sent s
         else snd (getBlockHeight t s) =
                snd (getChainInfo t (debugMessage [Lit ''getBlockHeight''] s)) \<and>
              fst (getBlockHeight t s) =
                (case t c (sent s) (''getblockchaininfo'', []) of
                   Reject e \<Rightarrow> Thrown e
                 | Resolve info \<Rightarrow>
                     Returned (if truthy info then basic_block_info info else JNull))"
proof (cases "truthy (currentBlockInfo s)")
  case True
  with assms(1) show ?thesis by (simp add: getBlockHeight_present)
next
  case False
  with assms(2) have null: "currentBlockInfo s = JNull" by simp
  have init1: "rpc (debugMessage [Lit ''getBlockHeight''] s) = Some c"
    using assms(1) by simp
  show ?thesis
    using False null
    by (simp add: getBlockHeight_absent [OF assms(1) False] getChainInfo_initialized [OF init1]
          basic_block_info_def split: reply.split)
qed

lemma run_init_up:
  "run example_constants node_up [Init localhost] (new_BitcoinRPC None None) = synced_client"
  by (simp add: run_def step_def synced_client_def new_BitcoinRPC_def purgeCachedData_def)

lemma run_init_down:
  "run example_constants node_down [Init localhost] (new_BitcoinRPC None None) = quiet_client"
  by (simp add: run_def step_def quiet_client_def new_BitcoinRPC_def purgeCachedData_def)

section \<open>The claims\<close>




text \<open>
  C2. On a client whose \<^verbatim>\<open>init\<close> has not been called since it was constructed, or since
  \<^verbatim>\<open>destroy\<close> was last called, every RPC method throws the error with message
  \<^verbatim>\<open>RPC not initialized\<close>, and the list of calls sent to the transport is what it was.
\<close>

theorem uninitialized_method_throws:
  assumes "s0 = new_BitcoinRPC interval debug \<or> s0 = destroy s'"
    and "list_all (\<lambda>ev. \<not> is_init ev) evs"
    and "s = run K t evs s0"
  shows "fst (perform K r t s) = Thrown (JError ''RPC not initialized'') \<and>
         sent (snd (perform K r t s)) = sent s"
proof -
  from assms(1) have "rpc s0 = None" by auto
  with assms(2,3) have "rpc s = None" by (simp add: run_uninitialized)
  then show ?thesis by (simp add: perform_uninitialized not_initialized_def)
qed

theorem uninitialized_method_throws_witness:
  "fst (perform example_constants GetBlockCount node_up
         (run example_constants node_up [Call GetDifficulty, Elapse]
           (destroy (snd (init localhost node_up (new_BitcoinRPC None None)))))) =
     Thrown (JError ''RPC not initialized'') \<and>
   sent (snd (perform example_constants GetBlockCount node_up
         (run example_constants node_up [Call GetDifficulty, Elapse]
           (destroy (snd (init localhost node_up (new_BitcoinRPC None None))))))) =
     sent (run example_constants node_up [Call GetDifficulty, Elapse]
           (destroy (snd (init localhost node_up (new_BitcoinRPC None None)))))"
proof -
  have "list_all (\<lambda>ev. \<not> is_init ev) [Call GetDifficulty, Elapse]" by simp
  from uninitialized_method_throws [OF disjI2 [OF refl] this refl] show ?thesis .
qed

text \<open>
  C3. \<^verbatim>\<open>init\<close> on a client that holds a transport handle throws the error with message
  \<^verbatim>\<open>RPC already initialized\<close> and leaves the whole state as it was; on a client without a
  handle it leaves the handle constructed from the configuration: the host prefixed with
  \<^verbatim>\<open>http://\<close>, the port, the user name and the password.
\<close>

theorem init_once:
  "(rpc s = Some c \<longrightarrow> init rpcInfo t s = (Thrown (JError ''RPC already initialized''), s)) \<and>
   (rpc s = None \<longrightarrow>
      rpc (snd (init rpcInfo t s)) =
        Some (RPCClient \<lparr>url = ''http://'' @ BITCOIND_HOST rpcInfo, port = BITCOIND_PORT rpcInfo,
                          user = BITCOIND_USERNAME rpcInfo, pass = BITCOIND_PASSWORD rpcInfo\<rparr>))"
  by (simp add: init_def already_initialized_def getRpcConfigFromBlockchainConfig_def)

theorem init_once_witness:
  "init localhost node_up quiet_client = (Thrown (JError ''RPC already initialized''), quiet_client) \<and>
   rpc (snd (init localhost node_up (new_BitcoinRPC None None))) =
     Some (RPCClient \<lparr>url = ''http://127.0.0.1'', port = Finite 8332,
                       user = ''user'', pass = ''secret''\<rparr>)"
proof -
  have a: "rpc quiet_client = Some local_handle" by (simp add: quiet_client_eval)
  have b: "rpc (new_BitcoinRPC None None) = None" by simp
  from init_once [of quiet_client local_handle localhost node_up] a
    init_once [of "new_BitcoinRPC None None" local_handle localhost node_up] b
  show ?thesis by (simp add: localhost_def)
qed

text \<open>
  C4, as amended. A \<^verbatim>\<open>getChainInfo\<close> call the transport resolves returns the fetched
  snapshot and stores it as \<^verbatim>\<open>blockchainInfo\<close>; when the snapshot is non-empty it stores
  the derived pair of \<^verbatim>\<open>blocks\<close> and \<^verbatim>\<open>bestblockhash\<close> as \<^verbatim>\<open>currentBlockInfo\<close>, and when
  it is empty it leaves \<^verbatim>\<open>currentBlockInfo\<close> as it was. The constructor starts one interval
  timer with period \<^verbatim>\<open>cacheClearInterval\<close> (1000 when the argument is omitted), and in
  every state reached from the constructor without a call of \<^verbatim>\<open>destroy\<close>, in a process
  that has not exited, the timer's next firing sets both cached values to \<^verbatim>\<open>null\<close>.
\<close>

theorem chain_info_cached_until_purge:
  assumes "rpc s = Some c" and "t c (sent s) (''getblockchaininfo'', []) = Resolve info"
    and "list_all (\<lambda>ev. \<not> is_destroy ev) evs"
    and "s' = run K t' evs (new_BitcoinRPC interval debug)" and "exited s' = None"
  shows "fst (getChainInfo t s) = Returned info \<and>
         blockchainInfo (snd (getChainInfo t s)) = info \<and>
         currentBlockInfo (snd (getChainInfo t s)) =
           (if truthy info then basic_block_info info else currentBlockInfo s) \<and>
         cacheClearInterval (new_BitcoinRPC interval debug) = default_to (Finite 1000) interval \<and>
         intervals (new_BitcoinRPC interval debug) = [Timeout (default_to (Finite 1000) interval)] \<and>
         blockchainInfo (step K t' s' Elapse) = JNull \<and>
         currentBlockInfo (step K t' s' Elapse) = JNull"
proof -
  have "timer_running s'"
    using assms(3,4) by (simp add: timer_running_run)
  then have "blockchainInfo (elapse s') = JNull \<and> currentBlockInfo (elapse s') = JNull"
    by (rule elapse_purges)
  then have "blockchainInfo (step K t' s' Elapse) = JNull \<and>
      currentBlockInfo (step K t' s' Elapse) = JNull"
    using assms(5) by (simp add: step_def)
  moreover have "fst (getChainInfo t s) = Returned info \<and>
      blockchainInfo (snd (getChainInfo t s)) = info \<and>
      currentBlockInfo (snd (getChainInfo t s)) =
        (if truthy info then basic_block_info info else currentBlockInfo s)"
    using assms(2) by (simp add: getChainInfo_initialized [OF assms(1)] basic_block_info_def)
  moreover have "cacheClearInterval (new_BitcoinRPC interval debug) = default_to (Finite 1000) interval \<and>
      intervals (new_BitcoinRPC interval debug) = [Timeout (default_to (Finite 1000) interval)]"
    by (simp add: new_BitcoinRPC_def purgeCachedData_def)
  ultimately show ?thesis by simp
qed

theorem chain_info_cached_until_purge_witness:
  "fst (getChainInfo node_up quiet_client) = Returned chain_tip \<and>
   blockchainInfo (snd (getChainInfo node_up quiet_client)) = chain_tip \<and>
   currentBlockInfo (snd (getChainInfo node_up quiet_client)) =
     JObj [(''blockHeight'', JNum (Finite 840000)), (''blockHash'', JStr ''00ab'')] \<and>
   intervals (new_BitcoinRPC None None) = [Timeout (Finite 1000)] \<and>
   blockchainInfo (step example_constants node_up synced_client Elapse) = JNull \<and>
   currentBlockInfo (step example_constants node_up synced_client Elapse) = JNull"
proof -
  have a: "rpc quiet_client = Some local_handle" by (simp add: quiet_client_eval)
  have b: "node_up local_handle (sent quiet_client) (''getblockchaininfo'', []) = Resolve chain_tip"
    by (simp add: node_up_def)
  have c: "list_all (\<lambda>ev. \<not> is_destroy ev) [Init localhost, Call GetBlockHeight]" by simp
  have d: "exited synced_client = None" by (simp add: synced_client_eval)
  from chain_info_cached_until_purge
    [where t = node_up and t' = node_up and K = example_constants and s' = synced_client
       and interval = None and debug = None,
     OF a b c run_synced [symmetric] d]
  show ?thesis by (simp add: chain_tip_def basic_block_info_def default_to_def)
qed

text \<open>
  As stated, C4 fails in two ways. A \<^verbatim>\<open>getChainInfo\<close> call that resolves with \<^verbatim>\<open>null\<close>
  stores \<^verbatim>\<open>null\<close> as the snapshot and keeps the pair derived from an earlier snapshot.
  And after \<^verbatim>\<open>destroy\<close> and a second \<^verbatim>\<open>init\<close> the timer is no longer running: the
  snapshot cached by that \<^verbatim>\<open>init\<close> is still there after a timer period has elapsed.
\<close>

theorem stale_cache_counterexample:
  "fst (getChainInfo node_forgetful synced_client) = Returned JNull \<and>
   blockchainInfo (snd (getChainInfo node_forgetful synced_client)) = JNull \<and>
   currentBlockInfo (snd (getChainInfo node_forgetful synced_client)) =
     JObj [(''blockHeight'', JNum (Finite 840000)), (''blockHash'', JStr ''00ab'')] \<and>
   exited (run example_constants node_up [Init localhost, Destroy, Init localhost, Elapse]
            (new_BitcoinRPC None None)) = None \<and>
   blockchainInfo (run example_constants node_up [Init localhost, Destroy, Init localhost, Elapse]
            (new_BitcoinRPC None None)) = chain_tip \<and>
   currentBlockInfo (run example_constants node_up [Init localhost, Destroy, Init localhost, Elapse]
            (new_BitcoinRPC None None)) =
     JObj [(''blockHeight'', JNum (Finite 840000)), (''blockHash'', JStr ''00ab'')]"
  unfolding getChainInfo_stale run_reinitialised
  by (simp add: synced_client_eval reinitialised_client_eval)

text \<open>
  C5. In every state a client reaches from its construction, \<^verbatim>\<open>getBlockHeight\<close> returns the
  cached pair without sending anything to the transport when there is one. When there is
  none it throws on a client without a handle; otherwise it runs \<^verbatim>\<open>getChainInfo\<close> (its
  state afterwards is that call's) and returns the pair derived from the fetched snapshot,
  \<^verbatim>\<open>null\<close> when the snapshot is empty, and throws what the transport rejected with when
  the refresh fails.
\<close>

theorem getBlockHeight_cached_or_refreshed:
  assumes "s = run K t0 evs (new_BitcoinRPC interval debug)"
  shows "if truthy (currentBlockInfo s)
         then fst (getBlockHeight t s) = Returned (currentBlockInfo s) \<and>
              sent (snd (getBlockHeight t s)) = sent s
         else case rpc s of
                None \<Rightarrow> fst (getBlockHeight t s) = Thrown (JError ''RPC not initialized'')
              | Some c \<Rightarrow>
                  snd (getBlockHeight t s) =
                    snd (getChainInfo t (debugMessage [Lit ''getBlockHeight''] s)) \<and>
                  fst (getBlockHeight t s) =
                    (case t c (sent s) (''getblockchaininfo'', []) of
                       Reject e \<Rightarrow> Thrown e
                     | Resolve info \<Rightarrow>
                         Returned (if truthy info then basic_block_info info else JNull))"
proof -
  have inv: "cache_consistent s"
    unfolding assms by (rule run_cache_consistent) (rule new_cache_consistent)
  show ?thesis
  proof (cases "rpc s")
    case None
    with inv have "\<not> truthy (currentBlockInfo s)" by (simp add: cache_consistent_def)
    with None show ?thesis by (simp add: getBlockHeight_def not_initialized_def)
  next
    case (Some c)
    from inv have "currentBlockInfo s = JNull \<or> truthy (currentBlockInfo s)"
      by (simp add: cache_consistent_def)
    from getBlockHeight_consistent [OF Some this, of t] Some show ?thesis by simp
  qed
qed

theorem getBlockHeight_cached_or_refreshed_witness:
  "fst (getBlockHeight node_down synced_client) =
     Returned (JObj [(''blockHeight'', JNum (Finite 840000)), (''blockHash'', JStr ''00ab'')]) \<and>
   sent (snd (getBlockHeight node_down synced_client)) = [(''getblockchaininfo'', [])] \<and>
   fst (getBlockHeight node_forgetful quiet_client) = Returned JNull"
proof -
  from getBlockHeight_cached_or_refreshed [OF run_init_up [symmetric], of node_down]
    getBlockHeight_cached_or_refreshed [OF run_init_down [symmetric], of node_forgetful]
  show ?thesis by (simp add: node_forgetful_def quiet_client_eval synced_client_eval)
qed

text \<open>
  C6. On an initialised client \<^verbatim>\<open>sendRawTransaction\<close> sends its argument as it is; a
  rejection is thrown on to the caller and nothing is logged; a resolved value is returned
  when it is truthy (a non-empty transaction id) and \<^verbatim>\<open>null\<close> is returned when it is empty.
\<close>

theorem sendRawTransaction_propagates:
  assumes "rpc s = Some c"
  shows "fst (sendRawTransaction params t s) =
     (case t c (sent s) (''sendrawtransaction'', [params]) of
        Reject e \<Rightarrow> Thrown e
      | Resolve x \<Rightarrow> Returned (if truthy x then x else JNull)) \<and>
     sent (snd (sendRawTransaction params t s)) = sent s @ [(''sendrawtransaction'', [params])] \<and>
     errors_logged s (snd (sendRawTransaction params t s)) = []"
  using assms
  by (simp add: sendRawTransaction_def rpc_method_initialized or_else_def split: reply.split)

theorem sendRawTransaction_propagates_witness:
  "fst (sendRawTransaction (JObj [(''hexstring'', JStr ''0200'')]) node_down quiet_client) = Thrown refused \<and>
   fst (sendRawTransaction (JObj [(''hexstring'', JStr ''0200'')]) node_up quiet_client) =
     Returned (JStr ''9f3c'') \<and>
   fst (sendRawTransaction (JObj [(''hexstring'', JStr ''0200'')]) node_forgetful quiet_client) =
     Returned JNull"
proof -
  have h: "rpc quiet_client = Some local_handle" by (simp add: quiet_client_eval)
  have "sent quiet_client \<noteq> []" by (simp add: quiet_client_eval)
  with sendRawTransaction_propagates [OF h, of "JObj [(''hexstring'', JStr ''0200'')]" node_down]
    sendRawTransaction_propagates [OF h, of "JObj [(''hexstring'', JStr ''0200'')]" node_up]
    sendRawTransaction_propagates [OF h, of "JObj [(''hexstring'', JStr ''0200'')]" node_forgetful]
  show ?thesis by (simp add: node_down_def node_up_def node_forgetful_def)
qed




text \<open>
  C8, as amended. \<^verbatim>\<open>getRawTransaction\<close> sends the wire object with \<^verbatim>\<open>txid\<close> the given
  \<^verbatim>\<open>txId\<close>, \<^verbatim>\<open>verbose\<close> true exactly when the requested verbosity is not \<^verbatim>\<open>RAW\<close>, and
  the field \<^verbatim>\<open>blockhash\<close> exactly when a non-empty \<^verbatim>\<open>blockHash\<close> was supplied.
\<close>

theorem getRawTransaction_wire_parameters:
  assumes "Verbosity_RAW K \<noteq> NaN" and "rpc s = Some c"
  shows "getRawTransaction_params K p =
           JObj ([(''txid'', JStr (txId p)),
                  (''verbose'', JBool (verbose p \<noteq> Some (Verbosity_RAW K)))] @
                 (case blockHash p of
                    None \<Rightarrow> []
                  | Some b \<Rightarrow> if b = [] then [] else [(''blockhash'', JStr b)])) \<and>
         sent (snd (getRawTransaction K p t s)) =
           sent s @ [(''getrawtransaction'', [getRawTransaction_params K p])]"
  using assms
  by (auto simp add: getRawTransaction_params_def getRawTransaction_def rpc_method_sent
        strict_neq_def opt_def Let_def split: option.split)

theorem getRawTransaction_wire_parameters_witness:
  "getRawTransaction_params example_constants
      \<lparr>txId = ''ab'', verbose = Some (Finite 1), blockHash = Some ''00cd''\<rparr> =
     JObj [(''txid'', JStr ''ab''), (''verbose'', JBool False), (''blockhash'', JStr ''00cd'')] \<and>
   sent (snd (getRawTransaction example_constants
      \<lparr>txId = ''ab'', verbose = Some (Finite 1), blockHash = Some ''00cd''\<rparr> node_up quiet_client)) =
     [(''getblockchaininfo'', []),
      (''getrawtransaction'',
        [JObj [(''txid'', JStr ''ab''), (''verbose'', JBool False), (''blockhash'', JStr ''00cd'')]])]"
proof -
  have a: "Verbosity_RAW example_constants \<noteq> NaN" by (simp add: example_constants_def)
  have b: "rpc quiet_client = Some local_handle" by (simp add: quiet_client_eval)
  from getRawTransaction_wire_parameters [OF a b,
      of "\<lparr>txId = ''ab'', verbose = Some (Finite 1), blockHash = Some ''00cd''\<rparr>" node_up]
  show ?thesis by (simp add: example_constants_def quiet_client_eval)
qed

text \<open>
  As stated, C8 fails for a supplied but empty \<^verbatim>\<open>blockHash\<close>: the test
  \<^verbatim>\<open>if (parameters.blockHash)\<close> is false for the empty string and the wire object has no
  \<^verbatim>\<open>blockhash\<close> field.
\<close>

theorem empty_blockHash_counterexample:
  "blockHash \<lparr>txId = ''ab'', verbose = None, blockHash = Some []\<rparr> \<noteq> None \<and>
   getRawTransaction_params example_constants \<lparr>txId = ''ab'', verbose = None, blockHash = Some []\<rparr> =
     JObj [(''txid'', JStr ''ab''), (''verbose'', JBool True)] \<and>
   \<not> has_field ''blockhash''
       (getRawTransaction_params example_constants
          \<lparr>txId = ''ab'', verbose = None, blockHash = Some []\<rparr>)"
  by (simp add: getRawTransaction_params_def strict_neq_def opt_def)






end
